theory Spec2Isabelle
  imports Main "HOL-Library.Word"
begin

section \<open>Go values, panics and the trace of effects\<close>

text \<open>
  The package under verification is \<^verbatim>\<open>queue\<close> (queue.go, queueProcessor.go): a client of
  Amazon SQS that provisions a queue with its dead-letter queue, sends, receives and
  deletes messages, and runs a polling worker loop.

  A Go pointer that may be nil is an \<open>option\<close> (\<open>None\<close> is nil); dereferencing nil
  panics. A Go \<open>error\<close> value is opaque to the package: it is only compared with nil and
  handed on, so \<open>error option\<close> stands for the interface value.
\<close>

datatype error = Error string

datatype 'a result = Return 'a | Panic

datatype level = InfoLevel | WarningLevel | ErrorLevel

subsection \<open>The types of the AWS SDK that the package uses\<close>

text \<open>
  Of each SDK struct only the fields the package reads or writes are kept. A field that
  several SDK structs share by name carries a prefix here (\<open>ga_\<close> GetQueueAttributes,
  \<open>sm_\<close> SendMessage, \<open>rm_\<close> ReceiveMessage, \<open>dm_\<close> DeleteMessage).
  \<^verbatim>\<open>map[string]*string\<close> is a map to optional strings.
\<close>

record Message =
  MessageId :: "string option"
  ReceiptHandle :: "string option"
  Body :: "string option"

record CreateQueueInput =
  QueueName :: "string option"
  Attributes :: "string \<rightharpoonup> string option"

record CreateQueueOutput =
  QueueUrl :: "string option"

record GetQueueAttributesInput =
  ga_QueueUrl :: "string option"
  AttributeNames :: "string option list"

record GetQueueAttributesOutput =
  ga_Attributes :: "string \<rightharpoonup> string option"

record SendMessageInput =
  MessageBody :: "string option"
  sm_QueueUrl :: "string option"

record SendMessageOutput =
  sm_MessageId :: "string option"

record ReceiveMessageInput =
  rm_QueueUrl :: "string option"
  MaxNumberOfMessages :: "int option"
  VisibilityTimeout :: "int option"
  WaitTimeSeconds :: "int option"

record ReceiveMessageOutput =
  Messages :: "Message option list"

record DeleteMessageInput =
  dm_QueueUrl :: "string option"
  dm_ReceiptHandle :: "string option"

datatype DeleteMessageOutput = DeleteMessageOutput

text \<open>
  The SQS client \<^verbatim>\<open>*sqs.SQS\<close> is an external collaborator. Each of its five operations
  used here takes the request and the state \<open>'w\<close> of the world outside the program
  (the remote service, the network) and gives Go's pair \<open>(resp, err)\<close> and the next
  world. Nothing is assumed about the operations.
\<close>

record 'w SQS =
  sqs_CreateQueue ::
    "CreateQueueInput \<Rightarrow> 'w \<Rightarrow> (CreateQueueOutput option \<times> error option) \<times> 'w"
  sqs_GetQueueAttributes ::
    "GetQueueAttributesInput \<Rightarrow> 'w \<Rightarrow> (GetQueueAttributesOutput option \<times> error option) \<times> 'w"
  sqs_SendMessage ::
    "SendMessageInput \<Rightarrow> 'w \<Rightarrow> (SendMessageOutput option \<times> error option) \<times> 'w"
  sqs_ReceiveMessage ::
    "ReceiveMessageInput \<Rightarrow> 'w \<Rightarrow> (ReceiveMessageOutput option \<times> error option) \<times> 'w"
  sqs_DeleteMessage ::
    "DeleteMessageInput \<Rightarrow> 'w \<Rightarrow> (DeleteMessageOutput option \<times> error option) \<times> 'w"

subsection \<open>Events\<close>

text \<open>
  What the program does to the outside is recorded as a list of events, in order: every
  call of an SDK operation with its request and its answer, every run of the JSON decoder
  on a message body with its error, every call of the handler with the error it returned,
  and every log entry (level and message; the structured fields are left out, but a
  dereference made to compute a field is not).
\<close>

datatype event =
    EvCreateQueue CreateQueueInput "CreateQueueOutput option" "error option"
  | EvGetQueueAttributes GetQueueAttributesInput "GetQueueAttributesOutput option" "error option"
  | EvSendMessage SendMessageInput "SendMessageOutput option" "error option"
  | EvReceiveMessage ReceiveMessageInput "ReceiveMessageOutput option" "error option"
  | EvDeleteMessage DeleteMessageInput "DeleteMessageOutput option" "error option"
  | EvDecode string "error option"
  | EvHandle "error option"
  | EvLog level string

text \<open>
  A Go function with effects is a function from the world to its result (a value or a
  panic), the events it produced and the world it leaves.
\<close>

type_synonym ('a, 'w) go = "'w \<Rightarrow> 'a result \<times> event list \<times> 'w"

definition ret :: "'a \<Rightarrow> ('a, 'w) go" where
  "ret x = (\<lambda>w. (Return x, [], w))"

definition panic :: "('a, 'w) go" where
  "panic = (\<lambda>w. (Panic, [], w))"

definition bind :: "('a, 'w) go \<Rightarrow> ('a \<Rightarrow> ('b, 'w) go) \<Rightarrow> ('b, 'w) go" where
  "bind m f = (\<lambda>w.
     case m w of
       (Panic, t, w') \<Rightarrow> (Panic, t, w')
     | (Return x, t, w') \<Rightarrow> (case f x w' of (r, t', w'') \<Rightarrow> (r, t @ t', w'')))"

definition emit :: "event \<Rightarrow> (unit, 'w) go" where
  "emit e = (\<lambda>w. (Return (), [e], w))"

definition logf :: "level \<Rightarrow> string \<Rightarrow> (unit, 'w) go" where
  "logf l msg = emit (EvLog l msg)"

definition deref :: "'a option \<Rightarrow> ('a, 'w) go" where
  "deref p = (case p of None \<Rightarrow> panic | Some x \<Rightarrow> ret x)"

text \<open>The five SDK calls, each recorded with its request and answer.\<close>

definition client_CreateQueue ::
  "'w SQS \<Rightarrow> CreateQueueInput \<Rightarrow> (CreateQueueOutput option \<times> error option, 'w) go" where
  "client_CreateQueue client params = (\<lambda>w.
     case sqs_CreateQueue client params w of
       ((resp, err), w') \<Rightarrow> (Return (resp, err), [EvCreateQueue params resp err], w'))"

definition client_GetQueueAttributes ::
  "'w SQS \<Rightarrow> GetQueueAttributesInput \<Rightarrow>
     (GetQueueAttributesOutput option \<times> error option, 'w) go" where
  "client_GetQueueAttributes client params = (\<lambda>w.
     case sqs_GetQueueAttributes client params w of
       ((resp, err), w') \<Rightarrow> (Return (resp, err), [EvGetQueueAttributes params resp err], w'))"

definition client_SendMessage ::
  "'w SQS \<Rightarrow> SendMessageInput \<Rightarrow> (SendMessageOutput option \<times> error option, 'w) go" where
  "client_SendMessage client params = (\<lambda>w.
     case sqs_SendMessage client params w of
       ((resp, err), w') \<Rightarrow> (Return (resp, err), [EvSendMessage params resp err], w'))"

definition client_ReceiveMessage ::
  "'w SQS \<Rightarrow> ReceiveMessageInput \<Rightarrow> (ReceiveMessageOutput option \<times> error option, 'w) go" where
  "client_ReceiveMessage client params = (\<lambda>w.
     case sqs_ReceiveMessage client params w of
       ((resp, err), w') \<Rightarrow> (Return (resp, err), [EvReceiveMessage params resp err], w'))"

definition client_DeleteMessage ::
  "'w SQS \<Rightarrow> DeleteMessageInput \<Rightarrow> (DeleteMessageOutput option \<times> error option, 'w) go" where
  "client_DeleteMessage client params = (\<lambda>w.
     case sqs_DeleteMessage client params w of
       ((resp, err), w') \<Rightarrow> (Return (resp, err), [EvDeleteMessage params resp err], w'))"

section \<open>encoding/json, as far as the package uses it\<close>

text \<open>
  \<^verbatim>\<open>json.Marshal\<close> of a \<^verbatim>\<open>RedrivePolicy\<close> is modelled in full, after Go's encoder: the
  members in the order of the struct's fields, under the names of the struct tags, the
  integer in decimal, the string with Go's escaping (HTML-safe escaping is on for
  \<^verbatim>\<open>Marshal\<close>; a byte that is not part of valid UTF-8 becomes \<^verbatim>\<open>\ufffd\<close>; U+2028 and
  U+2029 are escaped). Strings are byte lists, as Go's are.
  Runes are natural numbers; \<^verbatim>\<open>x & (2^k - 1)\<close> is written \<open>x mod 2^k\<close>, \<^verbatim>\<open>x >> k\<close> is
  \<open>x div 2^k\<close>, and the bitwise or of fields that do not overlap is a sum.
\<close>

definition RuneError :: nat where
  "RuneError = 0xFFFD"

text \<open>\<^verbatim>\<open>utf8.DecodeRuneInString\<close>: the first rune of the string and its width in bytes.\<close>

fun DecodeRuneInString :: "string \<Rightarrow> nat \<times> nat" where
  "DecodeRuneInString [] = (RuneError, 0)"
| "DecodeRuneInString (c0 # s) =
    (let s0 = (of_char c0 :: nat) in
     if s0 < 0x80 then (s0, 1)
     else if s0 < 0xC2 \<or> 0xF5 \<le> s0 then (RuneError, 1)
     else
       let sz = (if s0 < 0xE0 then 2 else if s0 < 0xF0 then 3 else 4 :: nat);
           lo = (if s0 = 0xE0 then 0xA0 else if s0 = 0xF0 then 0x90 else 0x80 :: nat);
           hi = (if s0 = 0xED then 0x9F else if s0 = 0xF4 then 0x8F else 0xBF :: nat)
       in
         if Suc (length s) < sz then (RuneError, 1)
         else
           let s1 = (of_char (s ! 0) :: nat) in
           if s1 < lo \<or> hi < s1 then (RuneError, 1)
           else if sz \<le> 2 then ((s0 mod 32) * 64 + s1 mod 64, 2)
           else
             let s2 = (of_char (s ! 1) :: nat) in
             if s2 < 0x80 \<or> 0xBF < s2 then (RuneError, 1)
             else if sz \<le> 3 then ((s0 mod 16) * 4096 + (s1 mod 64) * 64 + s2 mod 64, 3)
             else
               let s3 = (of_char (s ! 2) :: nat) in
               if s3 < 0x80 \<or> 0xBF < s3 then (RuneError, 1)
               else ((s0 mod 8) * 262144 + (s1 mod 64) * 4096 + (s2 mod 64) * 64 + s3 mod 64, 4))"

text \<open>\<^verbatim>\<open>utf8.EncodeRune\<close>: the bytes of a rune; a surrogate or a value beyond U+10FFFF is
  written as U+FFFD.\<close>

definition EncodeRune :: "nat \<Rightarrow> string" where
  "EncodeRune r =
    (if r \<le> 0x7F then [char_of r]
     else if r \<le> 0x7FF then [char_of (0xC0 + r div 64), char_of (0x80 + r mod 64)]
     else if 0x10FFFF < r \<or> (0xD800 \<le> r \<and> r \<le> 0xDFFF) then [CHR 0xEF, CHR 0xBF, CHR 0xBD]
     else if r \<le> 0xFFFF then
       [char_of (0xE0 + r div 4096), char_of (0x80 + (r div 64) mod 64), char_of (0x80 + r mod 64)]
     else
       [char_of (0xF0 + r div 262144), char_of (0x80 + (r div 4096) mod 64),
        char_of (0x80 + (r div 64) mod 64), char_of (0x80 + r mod 64)])"

text \<open>The table \<^verbatim>\<open>hex\<close> of the sixteen digits; it is only read below sixteen.\<close>

definition hex :: "nat \<Rightarrow> char" where
  "hex n = ''0123456789abcdef'' ! n"

text \<open>\<^verbatim>\<open>htmlSafeSet\<close>: the ASCII bytes the encoder copies as they are.\<close>

definition htmlSafe :: "char \<Rightarrow> bool" where
  "htmlSafe c \<longleftrightarrow>
     0x20 \<le> (of_char c :: nat) \<and> (of_char c :: nat) < 0x80 \<and>
     c \<noteq> CHR 0x22 \<and> c \<noteq> CHR ''&'' \<and> c \<noteq> CHR ''<'' \<and> c \<noteq> CHR ''>'' \<and> c \<noteq> CHR 0x5C"

text \<open>
  The escape of one ASCII byte that is not copied (since Go 1.22; before, \<^verbatim>\<open>\b\<close> and
  \<^verbatim>\<open>\f\<close> took the last branch, and the decoder reads both forms).
\<close>

definition escapeByte :: "char \<Rightarrow> string" where
  "escapeByte c =
    (if c = CHR 0x5C \<or> c = CHR 0x22 then [CHR 0x5C, c]
     else if c = CHR 0x08 then [CHR 0x5C, CHR ''b'']
     else if c = CHR 0x0C then [CHR 0x5C, CHR ''f'']
     else if c = CHR 0x0A then [CHR 0x5C, CHR ''n'']
     else if c = CHR 0x0D then [CHR 0x5C, CHR ''r'']
     else if c = CHR 0x09 then [CHR 0x5C, CHR ''t'']
     else [CHR 0x5C, CHR ''u'', CHR ''0'', CHR ''0'',
           hex ((of_char c :: nat) div 16), hex ((of_char c :: nat) mod 16)])"

text \<open>The loop of \<^verbatim>\<open>appendString\<close> between the two quotes.\<close>

fun appendStringBody :: "string \<Rightarrow> string" where
  "appendStringBody [] = []"
| "appendStringBody (c # s) =
    (if (of_char c :: nat) < 0x80 then
       (if htmlSafe c then [c] else escapeByte c) @ appendStringBody s
     else
       (case DecodeRuneInString (c # s) of (r, width) \<Rightarrow>
          if r = RuneError \<and> width = 1 then
            (CHR 0x5C # ''ufffd'') @ appendStringBody s
          else if r = 0x2028 \<or> r = 0x2029 then
            (CHR 0x5C # ''u202'') @ [hex (r mod 16)] @ appendStringBody (drop (width - 1) s)
          else
            (c # take (width - 1) s) @ appendStringBody (drop (width - 1) s)))"

definition appendString :: "string \<Rightarrow> string" where
  "appendString src = [CHR 0x22] @ appendStringBody src @ [CHR 0x22]"

text \<open>\<^verbatim>\<open>strconv.AppendInt(_, i, 10)\<close>.\<close>

fun formatNat :: "nat \<Rightarrow> string" where
  "formatNat n =
    (if n < 10 then [char_of (48 + n)] else formatNat (n div 10) @ [char_of (48 + n mod 10)])"

definition FormatInt :: "int \<Rightarrow> string" where
  "FormatInt i = (if i < 0 then CHR ''-'' # formatNat (nat (- i)) else formatNat (nat i))"

text \<open>The equation of \<open>formatNat\<close> is used by hand: as a rewrite rule it would not end.\<close>

declare formatNat.simps [simp del]

subsection \<open>Decoding\<close>

text \<open>
  The decoder is modelled as far as it reads what the encoder writes. \<open>unquote\<close> is the
  scanner's walk through a string literal and \<^verbatim>\<open>unquoteBytes\<close> in one pass: from the text
  after the opening quote to the decoded bytes and the text after the closing quote, or
  \<open>None\<close> where Go reports an error (an unknown escape, a control character, no closing
  quote). A byte that is not part of valid UTF-8 is replaced by U+FFFD, as is a
  \<^verbatim>\<open>\u\<close> escape of half a surrogate pair.
\<close>

definition hexval :: "char \<Rightarrow> nat option" where
  "hexval c =
    (let n = (of_char c :: nat) in
     if 0x30 \<le> n \<and> n \<le> 0x39 then Some (n - 0x30)
     else if 0x61 \<le> n \<and> n \<le> 0x66 then Some (n - 0x61 + 10)
     else if 0x41 \<le> n \<and> n \<le> 0x46 then Some (n - 0x41 + 10)
     else None)"

definition getu4 :: "string \<Rightarrow> nat option" where
  "getu4 s =
    (case s of
       e # u # a # b # c # d # rest \<Rightarrow>
         if e = CHR 0x5C \<and> u = CHR ''u'' then
           (case (hexval a, hexval b, hexval c, hexval d) of
              (Some x3, Some x2, Some x1, Some x0) \<Rightarrow> Some (x3 * 4096 + x2 * 256 + x1 * 16 + x0)
            | _ \<Rightarrow> None)
         else None
     | _ \<Rightarrow> None)"

definition utf16_DecodeRune :: "nat \<Rightarrow> nat option \<Rightarrow> nat" where
  "utf16_DecodeRune r1 r2 =
    (case r2 of
       Some r2 \<Rightarrow>
         if 0xD800 \<le> r1 \<and> r1 < 0xDC00 \<and> 0xDC00 \<le> r2 \<and> r2 < 0xE000
         then (r1 - 0xD800) * 1024 + (r2 - 0xDC00) + 0x10000
         else 0xFFFD
     | None \<Rightarrow> 0xFFFD)"

definition prepend :: "string \<Rightarrow> (string \<times> string) option \<Rightarrow> (string \<times> string) option" where
  "prepend b r = (case r of None \<Rightarrow> None | Some (t, rest) \<Rightarrow> Some (b @ t, rest))"

fun unquote :: "string \<Rightarrow> (string \<times> string) option" where
  "unquote [] = None"
| "unquote (c # s) =
    (if c = CHR 0x22 then Some ([], s)
     else if c = CHR 0x5C then
       (case s of
          [] \<Rightarrow> None
        | e # s' \<Rightarrow>
            if e = CHR 0x22 \<or> e = CHR 0x5C \<or> e = CHR ''/'' then prepend [e] (unquote s')
            else if e = CHR ''b'' then prepend [CHR 0x08] (unquote s')
            else if e = CHR ''f'' then prepend [CHR 0x0C] (unquote s')
            else if e = CHR ''n'' then prepend [CHR 0x0A] (unquote s')
            else if e = CHR ''r'' then prepend [CHR 0x0D] (unquote s')
            else if e = CHR ''t'' then prepend [CHR 0x09] (unquote s')
            else if e = CHR ''u'' then
              (case getu4 (c # s) of
                 None \<Rightarrow> None
               | Some rr \<Rightarrow>
                   if 0xD800 \<le> rr \<and> rr < 0xE000 then
                     (let dec = utf16_DecodeRune rr (getu4 (drop 5 s)) in
                      if dec \<noteq> 0xFFFD then prepend (EncodeRune dec) (unquote (drop 11 s))
                      else prepend (EncodeRune 0xFFFD) (unquote (drop 5 s)))
                   else prepend (EncodeRune rr) (unquote (drop 5 s)))
            else None)
     else if (of_char c :: nat) < 0x20 then None
     else if (of_char c :: nat) < 0x80 then prepend [c] (unquote s)
     else
       (case DecodeRuneInString (c # s) of
          (rr, width) \<Rightarrow> prepend (EncodeRune rr) (unquote (drop (width - 1) s))))"

text \<open>\<^verbatim>\<open>utf8.ValidString\<close>: every rune of the string decodes without an error.\<close>

fun ValidString :: "string \<Rightarrow> bool" where
  "ValidString [] = True"
| "ValidString (c # s) =
    (case DecodeRuneInString (c # s) of
       (r, width) \<Rightarrow> \<not> (r = RuneError \<and> width = 1) \<and> ValidString (drop (width - 1) s))"

text \<open>
  A number literal for a destination of type \<^verbatim>\<open>int\<close>: an optional minus sign and digits
  without a leading zero, read by \<^verbatim>\<open>strconv.ParseInt(_, 10, 64)\<close>. A fraction or an
  exponent cannot be stored in an \<^verbatim>\<open>int\<close>, and a value outside 64 bits overflows it:
  both are errors.
\<close>

definition isDigit :: "char \<Rightarrow> bool" where
  "isDigit c \<longleftrightarrow> 0x30 \<le> (of_char c :: nat) \<and> (of_char c :: nat) \<le> 0x39"

definition digitsValue :: "string \<Rightarrow> nat" where
  "digitsValue ds = foldl (\<lambda>acc c. acc * 10 + (of_char c - 0x30)) 0 ds"

definition parseInt64 :: "string \<Rightarrow> (int \<times> string) option" where
  "parseInt64 s =
    (let neg = (s \<noteq> [] \<and> hd s = CHR ''-'');
         t = (if neg then tl s else s);
         ds = takeWhile isDigit t;
         rest = dropWhile isDigit t
     in if ds = [] \<or> (1 < length ds \<and> hd ds = CHR ''0'') then None
        else if rest \<noteq> [] \<and> (hd rest = CHR ''.'' \<or> hd rest = CHR ''e'' \<or> hd rest = CHR ''E'') then None
        else
          let v = int (digitsValue ds); i = (if neg then - v else v)
          in if i < - (2 ^ 63) \<or> 2 ^ 63 \<le> i then None else Some (i, rest))"

definition expect :: "string \<Rightarrow> string \<Rightarrow> string option" where
  "expect p s = (if take (length p) s = p then Some (drop (length p) s) else None)"

section \<open>queue.go\<close>

definition sqsRegion :: string where
  "sqsRegion = ''eu-central-1''"

definition deadLetterQueueSuffix :: string where
  "deadLetterQueueSuffix = ''-deadMessages''"

definition MaxReceiveCountBeforeDead :: "64 word" where
  "MaxReceiveCountBeforeDead = 5"

record Queue =
  Name :: string
  URL :: string
  DeadLetterQueueURL :: string

text \<open>Go's \<^verbatim>\<open>int\<close> is a machine integer in two's complement, 64 bits wide on the 64-bit
  platforms; \<open>sint\<close> reads its value.\<close>

record RedrivePolicy =
  MaxReceiveCount :: "64 word"
  DeadLetterTargetArn :: string

text \<open>
  \<^verbatim>\<open>json.Marshal(policy)\<close> for the struct with its two tags
  \<^verbatim>\<open>json:"maxReceiveCount"\<close> and \<^verbatim>\<open>json:"deadLetterTargetArn"\<close>. Encoding an integer and
  a string cannot fail: the error is always nil.
\<close>

definition Marshal_RedrivePolicy :: "RedrivePolicy \<Rightarrow> string \<times> error option" where
  "Marshal_RedrivePolicy policy =
    (''{'' @ appendString ''maxReceiveCount'' @ '':'' @ FormatInt (sint (MaxReceiveCount policy)) @
     '','' @ appendString ''deadLetterTargetArn'' @ '':'' @
     appendString (DeadLetterTargetArn policy) @ ''}'', None)"

text \<open>
  \<^verbatim>\<open>json.Unmarshal\<close> into a \<^verbatim>\<open>RedrivePolicy\<close>, for a text of the encoder's form: an object
  without white space whose members are the two fields, in the order of the struct.
  Every other text is \<open>None\<close> here: that leaves out texts that Go decodes (white space,
  another order, unknown members), none of which \<^verbatim>\<open>Marshal\<close> writes.
\<close>

definition Unmarshal_RedrivePolicy :: "string \<Rightarrow> RedrivePolicy option" where
  "Unmarshal_RedrivePolicy data =
    (case expect (''{'' @ appendString ''maxReceiveCount'' @ '':'') data of
       None \<Rightarrow> None
     | Some s1 \<Rightarrow>
         (case parseInt64 s1 of
            None \<Rightarrow> None
          | Some (i, s2) \<Rightarrow>
              (case expect ('','' @ appendString ''deadLetterTargetArn'' @ '':'' @ [CHR 0x22]) s2 of
                 None \<Rightarrow> None
               | Some s3 \<Rightarrow>
                   (case unquote s3 of
                      None \<Rightarrow> None
                    | Some (arn, s4) \<Rightarrow>
                        if s4 = ''}''
                        then Some \<lparr>MaxReceiveCount = of_int i, DeadLetterTargetArn = arn\<rparr>
                        else None))))"

text \<open>
  \<^verbatim>\<open>GetClient\<close> builds a client from a fresh session for the region; \<open>aws\<close> is the SDK
  with the ambient credentials, from a region to its client.
\<close>

definition GetClient :: "(string \<Rightarrow> 'w SQS) \<Rightarrow> 'w SQS" where
  "GetClient aws = aws sqsRegion"

definition GetAsAWSString :: "RedrivePolicy \<Rightarrow> (string option \<times> error option, 'w) go" where
  "GetAsAWSString policy =
    (case Marshal_RedrivePolicy policy of
       (jsonBytes, err) \<Rightarrow>
         if err \<noteq> None then
           bind (logf ErrorLevel ''Marshal the RedrivePolicy'') (\<lambda>_. ret (None, err))
         else ret (Some jsonBytes, err))"

definition GetAttributesByQueueURL ::
  "(string \<Rightarrow> 'w SQS) \<Rightarrow> Queue \<Rightarrow> string \<Rightarrow> string option list \<Rightarrow>
     (GetQueueAttributesOutput option \<times> error option, 'w) go" where
  "GetAttributesByQueueURL aws queue url attributeNames =
    (let client = GetClient aws;
         params = \<lparr>ga_QueueUrl = Some url, AttributeNames = attributeNames\<rparr>
     in bind (client_GetQueueAttributes client params) (\<lambda>(resp, err).
        if err \<noteq> None then
          bind (logf ErrorLevel ''Getting queue attributes'') (\<lambda>_. ret (resp, err))
        else ret (resp, err)))"

text \<open>
  \<^verbatim>\<open>Init\<close> has a pointer receiver: the result carries the queue as the call leaves it,
  beside the error. \<^verbatim>\<open>*resp.QueueUrl\<close> panics when the response or its field is nil, and
  \<^verbatim>\<open>*deadLetterQueueAttributes.Attributes["QueueArn"]\<close> panics when the response is nil
  or the map gives nil for the key (a key that is absent, or stored with nil).
\<close>

definition Init :: "(string \<Rightarrow> 'w SQS) \<Rightarrow> Queue \<Rightarrow> (Queue \<times> error option, 'w) go" where
  "Init aws queue =
    (let client = GetClient aws;
         params = \<lparr>QueueName = Some (Name queue @ deadLetterQueueSuffix),
                   Attributes = [''MessageRetentionPeriod'' \<mapsto> Some ''1209600'']\<rparr>
     in bind (client_CreateQueue client params) (\<lambda>(resp, err).
        if err \<noteq> None then
          bind (logf ErrorLevel ''Createing the dead letter queue'') (\<lambda>_. ret (queue, err))
        else
          bind (deref resp) (\<lambda>r.
          bind (deref (QueueUrl r)) (\<lambda>dlurl.
          let queue = queue\<lparr>DeadLetterQueueURL := dlurl\<rparr> in
          bind (logf InfoLevel ''Dead Letter Queue initialized'') (\<lambda>_.
          let queueArnAttributeName = ''QueueArn'' in
          bind (GetAttributesByQueueURL aws queue (DeadLetterQueueURL queue)
                  [Some queueArnAttributeName]) (\<lambda>(deadLetterQueueAttributes, err).
          if err \<noteq> None then ret (queue, err)
          else
            bind (deref deadLetterQueueAttributes) (\<lambda>attrs.
            bind (deref (case ga_Attributes attrs queueArnAttributeName of
                           None \<Rightarrow> None | Some p \<Rightarrow> p)) (\<lambda>arn.
            let redrivePolicy = \<lparr>MaxReceiveCount = MaxReceiveCountBeforeDead,
                                   DeadLetterTargetArn = arn\<rparr> in
            bind (GetAsAWSString redrivePolicy) (\<lambda>(redrivePolicyString, err).
            if err \<noteq> None then ret (queue, err)
            else
              let params = \<lparr>QueueName = Some (Name queue),
                              Attributes = [''RedrivePolicy'' \<mapsto> redrivePolicyString,
                                            ''MessageRetentionPeriod'' \<mapsto> Some ''1209600'']\<rparr>
              in bind (client_CreateQueue client params) (\<lambda>(resp, err).
                 if err \<noteq> None then
                   bind (logf ErrorLevel ''Createing the queue'') (\<lambda>_. ret (queue, err))
                 else
                   bind (deref resp) (\<lambda>r.
                   bind (deref (QueueUrl r)) (\<lambda>url.
                   let queue = queue\<lparr>URL := url\<rparr> in
                   bind (logf InfoLevel ''Queue initialized'') (\<lambda>_.
                   ret (queue, err))))))))))))))"

text \<open>\<^verbatim>\<open>New\<close> returns the address of its local queue, never nil, and the error of
  \<^verbatim>\<open>Init\<close>.\<close>

definition New :: "(string \<Rightarrow> 'w SQS) \<Rightarrow> string \<Rightarrow> (Queue option \<times> error option, 'w) go" where
  "New aws name =
    (let queue = \<lparr>Name = name, URL = [], DeadLetterQueueURL = []\<rparr>
     in bind (Init aws queue) (\<lambda>(queue, err). ret (Some queue, err)))"

text \<open>
  \<^verbatim>\<open>SendMessage\<close> takes any payload; \<open>marshal\<close> is \<^verbatim>\<open>json.Marshal\<close> at the payload's
  type, giving the bytes and the error. On success the log entry reads
  \<^verbatim>\<open>resp.MessageId\<close>, which panics when the response is nil.
\<close>

definition SendMessage ::
  "(string \<Rightarrow> 'w SQS) \<Rightarrow> ('p \<Rightarrow> string \<times> error option) \<Rightarrow> Queue \<Rightarrow> 'p \<Rightarrow>
     (SendMessageOutput option \<times> error option, 'w) go" where
  "SendMessage aws marshal queue messageBody =
    (case marshal messageBody of
       (msg, err) \<Rightarrow>
         if err \<noteq> None then
           bind (logf ErrorLevel ''Marshal the message body for the queue'') (\<lambda>_.
           ret (None, err))
         else
           let client = GetClient aws;
               params = \<lparr>MessageBody = Some msg, sm_QueueUrl = Some (URL queue)\<rparr>
           in bind (client_SendMessage client params) (\<lambda>(resp, err).
              if err \<noteq> None then
                bind (logf ErrorLevel ''Sending message to queue'') (\<lambda>_. ret (resp, err))
              else
                bind (deref resp) (\<lambda>_.
                bind (logf InfoLevel ''Message sent to the queue'') (\<lambda>_.
                ret (resp, err)))))"

definition ReceiveMessage ::
  "(string \<Rightarrow> 'w SQS) \<Rightarrow> Queue \<Rightarrow> (Message option \<times> error option, 'w) go" where
  "ReceiveMessage aws queue =
    (let client = GetClient aws;
         params = \<lparr>rm_QueueUrl = Some (URL queue), MaxNumberOfMessages = Some 1,
                   VisibilityTimeout = Some 600, WaitTimeSeconds = Some 20\<rparr>
     in bind (client_ReceiveMessage client params) (\<lambda>(resp, err).
        if err \<noteq> None then
          bind (logf ErrorLevel ''Receiving message from queue'') (\<lambda>_. ret (None, err))
        else
          bind (deref resp) (\<lambda>r.
          if length (Messages r) < 1 then ret (None, err)
          else ret (Messages r ! 0, err))))"

definition DeleteMessageByReceiptHandle ::
  "(string \<Rightarrow> 'w SQS) \<Rightarrow> Queue \<Rightarrow> string option \<Rightarrow>
     (DeleteMessageOutput option \<times> error option, 'w) go" where
  "DeleteMessageByReceiptHandle aws queue receiptHandle =
    (let client = GetClient aws
     in bind (deref receiptHandle) (\<lambda>h.
        let params = \<lparr>dm_QueueUrl = Some (URL queue), dm_ReceiptHandle = Some h\<rparr>
        in client_DeleteMessage client params))"

definition DeleteMessage ::
  "(string \<Rightarrow> 'w SQS) \<Rightarrow> Queue \<Rightarrow> Message option \<Rightarrow>
     (DeleteMessageOutput option \<times> error option, 'w) go" where
  "DeleteMessage aws queue message =
    bind (deref message) (\<lambda>m.
    bind (DeleteMessageByReceiptHandle aws queue (ReceiptHandle m)) (\<lambda>(resp, err).
    if err \<noteq> None then
      bind (logf ErrorLevel ''Deleting message from queue'') (\<lambda>_. ret (resp, err))
    else
      bind (logf InfoLevel ''Message deleted from queue'') (\<lambda>_. ret (resp, err))))"

section \<open>queueProcessor.go\<close>

text \<open>
  The destination \<open>v\<close> of the decoder has the caller's type \<open>'b\<close>; \<open>decode\<close> is
  \<^verbatim>\<open>json.NewDecoder(reader).Decode(v)\<close> at that type: from the text and the destination
  to the destination as the decoder leaves it and the error. The fields of the error's log
  entry dereference \<^verbatim>\<open>message.MessageId\<close> and \<^verbatim>\<open>message.Body\<close>.
\<close>

definition UnmarshalMessageBody ::
  "(string \<Rightarrow> 'b \<Rightarrow> 'b \<times> error option) \<Rightarrow> Message option \<Rightarrow> 'b \<Rightarrow> ('b \<times> error option, 'w) go" where
  "UnmarshalMessageBody decode message v =
    bind (deref message) (\<lambda>m.
    bind (deref (Body m)) (\<lambda>bodyString.
    case decode bodyString v of
      (v, err) \<Rightarrow>
        bind (emit (EvDecode bodyString err)) (\<lambda>_.
        if err \<noteq> None then
          bind (deref (MessageId m)) (\<lambda>_.
          bind (deref (Body m)) (\<lambda>_.
          bind (logf ErrorLevel ''Unmarshal messageBody'') (\<lambda>_.
          ret (v, err))))
        else ret (v, err))))"

text \<open>
  The handler is the caller's code. It is given the processor by value, of which it can
  read the queue, and the address of the destination; it may change the destination and
  the world, and returns an error or nil. It is taken not to write to the queue it
  shares with the loop, and to return: a handler that panics ends the loop, as any Go
  function would. A nil function value is \<open>None\<close>.
\<close>

record ('b, 'w) Processor =
  Queue :: "Queue option"
  HandleMessageBody :: "(Queue \<Rightarrow> 'b \<Rightarrow> 'w \<Rightarrow> (error option \<times> 'b) \<times> 'w) option"

definition call_HandleMessageBody ::
  "(Queue \<Rightarrow> 'b \<Rightarrow> 'w \<Rightarrow> (error option \<times> 'b) \<times> 'w) \<Rightarrow> Queue \<Rightarrow> 'b \<Rightarrow>
     (error option \<times> 'b, 'w) go" where
  "call_HandleMessageBody h queue body = (\<lambda>w.
     case h queue body w of
       ((err, body'), w') \<Rightarrow> (Return (err, body'), [EvHandle err], w'))"

text \<open>
  One run of the body of the \<^verbatim>\<open>for\<close> loop of \<^verbatim>\<open>Process\<close>, from the destination value
  to the destination value the next run starts with. Every \<^verbatim>\<open>continue\<close> and the end of
  the body are a \<open>ret\<close>.
\<close>

definition Process_iteration ::
  "(string \<Rightarrow> 'w SQS) \<Rightarrow> (string \<Rightarrow> 'b \<Rightarrow> 'b \<times> error option) \<Rightarrow> ('b, 'w) Processor \<Rightarrow>
     Queue \<Rightarrow> 'b \<Rightarrow> ('b, 'w) go" where
  "Process_iteration aws decode processor queue body =
    bind (logf InfoLevel ''Polling queue'') (\<lambda>_.
    bind (ReceiveMessage aws queue) (\<lambda>(message, err).
    if err \<noteq> None \<or> message = None then ret body
    else
      bind (UnmarshalMessageBody decode message body) (\<lambda>(body, err).
      if err \<noteq> None then
        bind (logf WarningLevel ''Error unmarshalling message'') (\<lambda>_. ret body)
      else
        bind (deref (HandleMessageBody processor)) (\<lambda>handler.
        bind (call_HandleMessageBody handler queue body) (\<lambda>(err, body).
        if err \<noteq> None then
          bind (logf WarningLevel ''Error processing message'') (\<lambda>_. ret body)
        else
          bind (DeleteMessage aws queue message) (\<lambda>(_, err).
          if err \<noteq> None then
            bind (logf WarningLevel ''Error deleting queue message'') (\<lambda>_. ret body)
          else ret body))))))"

text \<open>
  The loop has no exit: it ends only by a panic. \<open>Process_loop n\<close> is its first \<open>n\<close>
  runs: \<open>Return\<close> when all of them completed (the loop then goes on), \<open>Panic\<close> when one
  of them panicked.
\<close>

fun Process_loop ::
  "nat \<Rightarrow> (string \<Rightarrow> 'w SQS) \<Rightarrow> (string \<Rightarrow> 'b \<Rightarrow> 'b \<times> error option) \<Rightarrow> ('b, 'w) Processor \<Rightarrow>
     Queue \<Rightarrow> 'b \<Rightarrow> ('b, 'w) go" where
  "Process_loop 0 aws decode processor queue body = ret body"
| "Process_loop (Suc n) aws decode processor queue body =
    bind (Process_iteration aws decode processor queue body) (\<lambda>body.
    Process_loop n aws decode processor queue body)"

text \<open>\<^verbatim>\<open>Process\<close> up to the end of the \<open>n\<close>-th run of its loop. The fields of the first log
  entry read \<^verbatim>\<open>processor.Queue.Name\<close>, which panics when the queue is nil.\<close>

definition Process ::
  "nat \<Rightarrow> (string \<Rightarrow> 'w SQS) \<Rightarrow> (string \<Rightarrow> 'b \<Rightarrow> 'b \<times> error option) \<Rightarrow> ('b, 'w) Processor \<Rightarrow>
     'b \<Rightarrow> ('b, 'w) go" where
  "Process n aws decode processor body =
    bind (deref (Queue processor)) (\<lambda>queue.
    bind (logf InfoLevel ''Processing queue started'') (\<lambda>_.
    Process_loop n aws decode processor queue body))"

section \<open>Reading a trace\<close>

text \<open>The requests of one kind among the events, in order, and the errors the handler
  returned.\<close>

fun create_requests :: "event list \<Rightarrow> CreateQueueInput list" where
  "create_requests [] = []"
| "create_requests (EvCreateQueue p resp err # es) = p # create_requests es"
| "create_requests (e # es) = create_requests es"

fun receive_requests :: "event list \<Rightarrow> ReceiveMessageInput list" where
  "receive_requests [] = []"
| "receive_requests (EvReceiveMessage p resp err # es) = p # receive_requests es"
| "receive_requests (e # es) = receive_requests es"

fun delete_requests :: "event list \<Rightarrow> DeleteMessageInput list" where
  "delete_requests [] = []"
| "delete_requests (EvDeleteMessage p resp err # es) = p # delete_requests es"
| "delete_requests (e # es) = delete_requests es"

fun handler_results :: "event list \<Rightarrow> error option list" where
  "handler_results [] = []"
| "handler_results (EvHandle err # es) = err # handler_results es"
| "handler_results (e # es) = handler_results es"

text \<open>
  The failures of a run of the loop body: an error returned by the receive call, by the
  decoder, by the handler or by the delete call.
\<close>

fun failure :: "event \<Rightarrow> bool" where
  "failure (EvReceiveMessage p resp (Some e)) = True"
| "failure (EvDecode bodyString (Some e)) = True"
| "failure (EvHandle (Some e)) = True"
| "failure (EvDeleteMessage p resp (Some e)) = True"
| "failure ev = False"

definition failures :: "event list \<Rightarrow> event list" where
  "failures evs = filter failure evs"

section \<open>Two services, a codec and a worker for the examples\<close>

text \<open>
  The world of both services is the number of calls made so far. \<open>down_sqs\<close> fails every
  call. \<open>up_sqs\<close> answers every call: a queue gets a URL made of its name, the first
  receive finds the queue empty and every later one delivers \<open>job_message\<close>.
\<close>

definition down_sqs :: "nat SQS" where
  "down_sqs =
    \<lparr>sqs_CreateQueue = (\<lambda>p w. ((None, Some (Error ''service unavailable'')), Suc w)),
     sqs_GetQueueAttributes = (\<lambda>p w. ((None, Some (Error ''service unavailable'')), Suc w)),
     sqs_SendMessage = (\<lambda>p w. ((None, Some (Error ''service unavailable'')), Suc w)),
     sqs_ReceiveMessage = (\<lambda>p w. ((None, Some (Error ''service unavailable'')), Suc w)),
     sqs_DeleteMessage = (\<lambda>p w. ((None, Some (Error ''service unavailable'')), Suc w))\<rparr>"

definition down_aws :: "string \<Rightarrow> nat SQS" where
  "down_aws region = down_sqs"

definition job_message :: Message where
  "job_message = \<lparr>MessageId = Some ''m-1'', ReceiptHandle = Some ''rh-1'', Body = Some ''{}''\<rparr>"

definition up_sqs :: "nat SQS" where
  "up_sqs =
    \<lparr>sqs_CreateQueue = (\<lambda>p w.
       (case QueueName p of
          None \<Rightarrow> ((None, Some (Error ''missing name'')), Suc w)
        | Some n \<Rightarrow> ((Some \<lparr>QueueUrl = Some (''https://sqs/'' @ n)\<rparr>, None), Suc w))),
     sqs_GetQueueAttributes = (\<lambda>p w.
       ((Some \<lparr>ga_Attributes = [''QueueArn'' \<mapsto> Some ''arn:aws:sqs:dead'']\<rparr>, None), Suc w)),
     sqs_SendMessage = (\<lambda>p w. ((Some \<lparr>sm_MessageId = Some ''m-1''\<rparr>, None), Suc w)),
     sqs_ReceiveMessage = (\<lambda>p w.
       ((Some \<lparr>Messages = (if w = 0 then [] else [Some job_message])\<rparr>, None), Suc w)),
     sqs_DeleteMessage = (\<lambda>p w. ((Some DeleteMessageOutput, None), Suc w))\<rparr>"

definition up_aws :: "string \<Rightarrow> nat SQS" where
  "up_aws region = up_sqs"

definition jobs :: Queue where
  "jobs = \<lparr>Name = ''jobs'', URL = [], DeadLetterQueueURL = []\<rparr>"

text \<open>A marshaller of strings that refuses the empty one, and a decoder into \<open>unit\<close> that
  accepts the empty object only.\<close>

definition text_marshal :: "string \<Rightarrow> string \<times> error option" where
  "text_marshal payload =
    (if payload = [] then ([], Some (Error ''unsupported value'')) else (appendString payload, None))"

definition strict_decode :: "string \<Rightarrow> unit \<Rightarrow> unit \<times> error option" where
  "strict_decode bodyString v =
    (if bodyString = ''{}'' then ((), None) else ((), Some (Error ''unexpected end of JSON input'')))"

text \<open>A worker on \<open>jobs\<close> whose handler succeeds on every message.\<close>

definition worker :: "(unit, nat) Processor" where
  "worker = \<lparr>Queue = Some jobs, HandleMessageBody = Some (\<lambda>queue body w. ((None, body), Suc w))\<rparr>"

text \<open>
  A service that delivers the given message at every receive, a message without an
  identifier whose body is not a JSON value, and a worker whose handler fails on every
  message.
\<close>

definition delivering :: "Message \<Rightarrow> nat SQS" where
  "delivering m =
     up_sqs\<lparr>sqs_ReceiveMessage := (\<lambda>p w. ((Some \<lparr>Messages = [Some m]\<rparr>, None), Suc w))\<rparr>"

definition delivering_aws :: "Message \<Rightarrow> string \<Rightarrow> nat SQS" where
  "delivering_aws m region = delivering m"

definition anonymous_message :: Message where
  "anonymous_message = \<lparr>MessageId = None, ReceiptHandle = Some ''rh-2'', Body = Some ''{''\<rparr>"

definition failing_worker :: "(unit, nat) Processor" where
  "failing_worker =
     \<lparr>Queue = Some jobs,
      HandleMessageBody = Some (\<lambda>queue body w. ((Some (Error ''job failed''), body), Suc w))\<rparr>"

text \<open>A service like \<open>up_sqs\<close> whose delete call fails.\<close>

definition undeletable_sqs :: "nat SQS" where
  "undeletable_sqs =
     up_sqs\<lparr>sqs_DeleteMessage := (\<lambda>p w. ((None, Some (Error ''service unavailable'')), Suc w))\<rparr>"

definition undeletable_aws :: "string \<Rightarrow> nat SQS" where
  "undeletable_aws region = undeletable_sqs"

section \<open>Running the model\<close>

text \<open>Equations that run a \<open>bind\<close> on a world, one for each kind of first step.\<close>

lemma bind_ret [simp]: "bind (ret x) f = f x"
  by (rule ext) (simp add: bind_def ret_def split: prod.splits)

lemma bind_panic [simp]: "bind panic f = panic"
  by (rule ext) (simp add: bind_def panic_def)

lemma bind_logf: "bind (logf l msg) f w = (case f () w of (r, t, w') \<Rightarrow> (r, EvLog l msg # t, w'))"
  by (simp add: bind_def logf_def emit_def)

lemma bind_emit: "bind (emit e) f w = (case f () w of (r, t, w') \<Rightarrow> (r, e # t, w'))"
  by (simp add: bind_def emit_def)

lemma bind_CreateQueue:
  "bind (client_CreateQueue c p) f w =
     (case sqs_CreateQueue c p w of
        ((resp, err), w1) \<Rightarrow> (case f (resp, err) w1 of (r, t, w') \<Rightarrow> (r, EvCreateQueue p resp err # t, w')))"
  by (simp add: bind_def client_CreateQueue_def split: prod.splits)

lemma bind_GetQueueAttributes:
  "bind (client_GetQueueAttributes c p) f w =
     (case sqs_GetQueueAttributes c p w of
        ((resp, err), w1) \<Rightarrow> (case f (resp, err) w1 of (r, t, w') \<Rightarrow> (r, EvGetQueueAttributes p resp err # t, w')))"
  by (simp add: bind_def client_GetQueueAttributes_def split: prod.splits)

lemma bind_assoc: "bind (bind m f) g = bind m (\<lambda>x. bind (f x) g)"
  by (rule ext) (simp add: bind_def split: prod.splits result.splits)

lemma ret_apply: "ret x w = (Return x, [], w)"
  by (simp add: ret_def)

lemma panic_apply: "panic w = (Panic, [], w)"
  by (simp add: panic_def)

lemma bind_deref: "bind (deref p) f w = (case p of None \<Rightarrow> (Panic, [], w) | Some x \<Rightarrow> f x w)"
  by (simp add: deref_def panic_apply split: option.splits)

lemma bind_if: "bind (if c then a else b) f = (if c then bind a f else bind b f)"
  by simp

lemma bind_case_prod: "bind (case p of (a, b) \<Rightarrow> g a b) f = (case p of (a, b) \<Rightarrow> bind (g a b) f)"
  by (simp split: prod.splits)
lemma bind_SendMessage:
  "bind (client_SendMessage c p) f w =
     (case sqs_SendMessage c p w of
        ((resp, err), w1) \<Rightarrow> (case f (resp, err) w1 of (r, t, w') \<Rightarrow> (r, EvSendMessage p resp err # t, w')))"
  by (simp add: bind_def client_SendMessage_def split: prod.splits)

lemma bind_ReceiveMessage:
  "bind (client_ReceiveMessage c p) f w =
     (case sqs_ReceiveMessage c p w of
        ((resp, err), w1) \<Rightarrow> (case f (resp, err) w1 of (r, t, w') \<Rightarrow> (r, EvReceiveMessage p resp err # t, w')))"
  by (simp add: bind_def client_ReceiveMessage_def split: prod.splits)

lemma bind_DeleteMessage:
  "bind (client_DeleteMessage c p) f w =
     (case sqs_DeleteMessage c p w of
        ((resp, err), w1) \<Rightarrow> (case f (resp, err) w1 of (r, t, w') \<Rightarrow> (r, EvDeleteMessage p resp err # t, w')))"
  by (simp add: bind_def client_DeleteMessage_def split: prod.splits)

lemma bind_HandleMessageBody:
  "bind (call_HandleMessageBody h q b) f w =
     (case h q b w of
        ((err, b'), w1) \<Rightarrow> (case f (err, b') w1 of (r, t, w') \<Rightarrow> (r, EvHandle err # t, w')))"
  by (simp add: bind_def call_HandleMessageBody_def split: prod.splits)

lemmas go_simps = Let_def bind_assoc bind_if bind_case_prod bind_deref bind_logf bind_emit bind_CreateQueue bind_GetQueueAttributes
  bind_SendMessage bind_ReceiveMessage bind_DeleteMessage bind_HandleMessageBody ret_apply panic_apply
lemma bind_Return:
  "m w = (Return x, t, w1) \<Longrightarrow> bind m f w = (case f x w1 of (r, t', w'') \<Rightarrow> (r, t @ t', w''))"
  by (simp add: bind_def)

lemma bind_Panic:
  "m w = (Panic, t, w1) \<Longrightarrow> bind m f w = (Panic, t, w1)"
  by (simp add: bind_def)

lemma delete_requests_append [simp]:
  "delete_requests (xs @ ys) = delete_requests xs @ delete_requests ys"
  by (induction xs rule: delete_requests.induct) simp_all

lemma handler_results_append [simp]:
  "handler_results (xs @ ys) = handler_results xs @ handler_results ys"
  by (induction xs rule: handler_results.induct) simp_all

lemma receive_requests_append [simp]:
  "receive_requests (xs @ ys) = receive_requests xs @ receive_requests ys"
  by (induction xs rule: receive_requests.induct) simp_all

lemmas fixture_simps = down_aws_def down_sqs_def up_aws_def up_sqs_def jobs_def GetClient_def

section \<open>Provisioning\<close>

lemma Init_fail:
  assumes "sqs_CreateQueue (GetClient aws)
     \<lparr>QueueName = Some (Name queue @ ''-deadMessages''),
                   Attributes = [''MessageRetentionPeriod'' \<mapsto> Some ''1209600'']\<rparr> w = ((resp, Some e), w1)"
  shows "Init aws queue w = (Return (queue, Some e), [EvCreateQueue \<lparr>QueueName = Some (Name queue @ ''-deadMessages''),
                   Attributes = [''MessageRetentionPeriod'' \<mapsto> Some ''1209600'']\<rparr> resp (Some e), EvLog ErrorLevel ''Createing the dead letter queue''], w1)"
  using assms
  by (simp add: Init_def deadLetterQueueSuffix_def go_simps)

text \<open>
  Claim C1. For every queue and every behaviour of the service, the first thing \<open>Init\<close>
  does is to ask for the creation of the queue named \<open>name @ "-deadMessages"\<close>. When that
  call returns an error, \<open>Init\<close> returns this error with the queue as it was, and after the
  call it only writes a log entry: no other request is made. In every run the creation
  requests after the first are none, or one, for the queue named \<open>name\<close>; the primary queue
  is asked for only after the creation of the dead-letter queue has returned without an
  error and with a URL; and when \<open>Init\<close> returns with a nil error, the primary queue has been
  asked for, after the dead-letter queue.
\<close>

theorem Init_dead_letter_queue_first:
  assumes "Init aws queue w = (r, evs, w')"
  shows "\<exists>resp err rest.
     evs = EvCreateQueue \<lparr>QueueName = Some (Name queue @ ''-deadMessages''),
                   Attributes = [''MessageRetentionPeriod'' \<mapsto> Some ''1209600'']\<rparr> resp err # rest \<and>
     (err \<noteq> None \<longrightarrow>
        r = Return (queue, err) \<and> rest = [EvLog ErrorLevel ''Createing the dead letter queue'']) \<and>
     (create_requests rest = [] \<or>
      (\<exists>attrs. create_requests rest = [\<lparr>QueueName = Some (Name queue), Attributes = attrs\<rparr>])) \<and>
     (create_requests rest \<noteq> [] \<longrightarrow>
        err = None \<and> (\<exists>out url. resp = Some out \<and> QueueUrl out = Some url)) \<and>
     (\<forall>queue'. r = Return (queue', None) \<longrightarrow>
        (\<exists>attrs. create_requests rest =
           [\<lparr>QueueName = Some (Name queue), Attributes = attrs\<rparr>]))"
  using assms
  by (auto simp: Init_def deadLetterQueueSuffix_def GetAttributesByQueueURL_def GetAsAWSString_def Marshal_RedrivePolicy_def go_simps split: prod.splits if_splits option.splits)

theorem Init_dead_letter_queue_first_witness:
  "Init down_aws jobs 0 =
     (Return (jobs, Some (Error ''service unavailable'')),
      [EvCreateQueue \<lparr>QueueName = Some ''jobs-deadMessages'',
                      Attributes = [''MessageRetentionPeriod'' \<mapsto> Some ''1209600'']\<rparr>
         None (Some (Error ''service unavailable'')),
       EvLog ErrorLevel ''Createing the dead letter queue''], 1) \<and>
   (\<exists>evs attrs.
      Init up_aws jobs 0 =
        (Return (jobs\<lparr>DeadLetterQueueURL := ''https://sqs/jobs-deadMessages'',
                      URL := ''https://sqs/jobs''\<rparr>, None), evs, 3) \<and>
      create_requests evs =
        [\<lparr>QueueName = Some ''jobs-deadMessages'',
          Attributes = [''MessageRetentionPeriod'' \<mapsto> Some ''1209600'']\<rparr>,
         \<lparr>QueueName = Some ''jobs'', Attributes = attrs\<rparr>])"
proof -
  obtain r evs w' where run: "Init down_aws jobs 0 = (r, evs, w')"
    by (metis surj_pair)
  from Init_dead_letter_queue_first [OF run]
  obtain resp err rest where
    evs: "evs = EvCreateQueue \<lparr>QueueName = Some (Name jobs @ ''-deadMessages''),
                   Attributes = [''MessageRetentionPeriod'' \<mapsto> Some ''1209600'']\<rparr> resp err # rest"
    and fail: "err \<noteq> None \<longrightarrow>
        r = Return (jobs, err) \<and> rest = [EvLog ErrorLevel ''Createing the dead letter queue'']"
    by blast
  have call: "sqs_CreateQueue (GetClient down_aws) \<lparr>QueueName = Some (Name jobs @ ''-deadMessages''),
                   Attributes = [''MessageRetentionPeriod'' \<mapsto> Some ''1209600'']\<rparr> 0 =
      ((None, Some (Error ''service unavailable'')), 1)"
    by (simp add: fixture_simps)
  from Init_fail [OF call] run evs fail have down: "Init down_aws jobs 0 =
     (Return (jobs, Some (Error ''service unavailable'')),
      [EvCreateQueue \<lparr>QueueName = Some ''jobs-deadMessages'',
                      Attributes = [''MessageRetentionPeriod'' \<mapsto> Some ''1209600'']\<rparr>
         None (Some (Error ''service unavailable'')),
       EvLog ErrorLevel ''Createing the dead letter queue''], 1)"
    by (simp add: jobs_def)
  have "\<exists>evs. Init up_aws jobs 0 =
       (Return (jobs\<lparr>DeadLetterQueueURL := ''https://sqs/jobs-deadMessages'',
                     URL := ''https://sqs/jobs''\<rparr>, None), evs, 3)"
    by (simp add: Init_def deadLetterQueueSuffix_def GetAttributesByQueueURL_def GetAsAWSString_def
        Marshal_RedrivePolicy_def fixture_simps go_simps numeral_3_eq_3)
  then obtain evs2 where up: "Init up_aws jobs 0 =
       (Return (jobs\<lparr>DeadLetterQueueURL := ''https://sqs/jobs-deadMessages'',
                     URL := ''https://sqs/jobs''\<rparr>, None), evs2, 3)" ..
  from Init_dead_letter_queue_first [OF up]
  obtain resp2 err2 rest2 attrs where
    "evs2 = EvCreateQueue \<lparr>QueueName = Some (Name jobs @ ''-deadMessages''),
                   Attributes = [''MessageRetentionPeriod'' \<mapsto> Some ''1209600'']\<rparr> resp2 err2 # rest2"
    and "create_requests rest2 = [\<lparr>QueueName = Some (Name jobs), Attributes = attrs\<rparr>]"
    by blast
  then have "create_requests evs2 =
        [\<lparr>QueueName = Some ''jobs-deadMessages'',
          Attributes = [''MessageRetentionPeriod'' \<mapsto> Some ''1209600'']\<rparr>,
         \<lparr>QueueName = Some ''jobs'', Attributes = attrs\<rparr>]"
    by (simp add: jobs_def)
  with up down show ?thesis
    by blast
qed

text \<open>
  Claim C6. When \<open>Init\<close> returns with a nil error, its events are exactly: the creation of
  the dead-letter queue, a log entry, the request for the attribute \<open>QueueArn\<close> of the
  dead-letter queue's URL, the creation of the primary queue, a log entry. The primary
  queue is created with exactly two attributes: \<open>MessageRetentionPeriod\<close>, which is
  \<open>"1209600"\<close>, and \<open>RedrivePolicy\<close>, which is what \<open>GetAsAWSString\<close> gives for the policy with
  \<open>MaxReceiveCount = 5\<close> and, as \<open>DeadLetterTargetArn\<close>, the \<open>QueueArn\<close> of the answer.
\<close>

theorem Init_success_redrive_policy:
  assumes "Init aws queue w = (Return (queue', None), evs, w')"
  shows "\<exists>dlresp dlurl attrs arn policyString resp url.
     evs =
       [EvCreateQueue \<lparr>QueueName = Some (Name queue @ ''-deadMessages''),
                       Attributes = [''MessageRetentionPeriod'' \<mapsto> Some ''1209600'']\<rparr>
          (Some dlresp) None,
        EvLog InfoLevel ''Dead Letter Queue initialized'',
        EvGetQueueAttributes \<lparr>ga_QueueUrl = Some dlurl, AttributeNames = [Some ''QueueArn'']\<rparr>
          (Some attrs) None,
        EvCreateQueue \<lparr>QueueName = Some (Name queue),
                       Attributes = [''RedrivePolicy'' \<mapsto> Some policyString,
                                     ''MessageRetentionPeriod'' \<mapsto> Some ''1209600'']\<rparr>
          (Some resp) None,
        EvLog InfoLevel ''Queue initialized''] \<and>
     QueueUrl dlresp = Some dlurl \<and>
     ga_Attributes attrs ''QueueArn'' = Some (Some arn) \<and>
     GetAsAWSString \<lparr>MaxReceiveCount = 5, DeadLetterTargetArn = arn\<rparr> w' =
       (Return (Some policyString, None), [], w') \<and>
     QueueUrl resp = Some url \<and>
     queue' = queue\<lparr>DeadLetterQueueURL := dlurl, URL := url\<rparr>"
  using assms
  by (auto simp: Init_def deadLetterQueueSuffix_def MaxReceiveCountBeforeDead_def GetAttributesByQueueURL_def GetAsAWSString_def Marshal_RedrivePolicy_def go_simps split: prod.splits if_splits option.splits)
theorem Init_success_redrive_policy_witness:
  "\<exists>evs.
     Init up_aws jobs 0 =
       (Return (jobs\<lparr>DeadLetterQueueURL := ''https://sqs/jobs-deadMessages'',
                     URL := ''https://sqs/jobs''\<rparr>, None), evs, 3) \<and>
     (\<exists>dlresp dlurl attrs arn policyString resp url.
        evs =
          [EvCreateQueue \<lparr>QueueName = Some (Name jobs @ ''-deadMessages''),
                          Attributes = [''MessageRetentionPeriod'' \<mapsto> Some ''1209600'']\<rparr>
             (Some dlresp) None,
           EvLog InfoLevel ''Dead Letter Queue initialized'',
           EvGetQueueAttributes \<lparr>ga_QueueUrl = Some dlurl, AttributeNames = [Some ''QueueArn'']\<rparr>
             (Some attrs) None,
           EvCreateQueue \<lparr>QueueName = Some (Name jobs),
                          Attributes = [''RedrivePolicy'' \<mapsto> Some policyString,
                                        ''MessageRetentionPeriod'' \<mapsto> Some ''1209600'']\<rparr>
             (Some resp) None,
           EvLog InfoLevel ''Queue initialized''] \<and>
        QueueUrl dlresp = Some dlurl \<and>
        ga_Attributes attrs ''QueueArn'' = Some (Some arn) \<and>
        GetAsAWSString \<lparr>MaxReceiveCount = 5, DeadLetterTargetArn = arn\<rparr> (3::nat) =
          (Return (Some policyString, None), [], 3) \<and>
        QueueUrl resp = Some url \<and>
        jobs\<lparr>DeadLetterQueueURL := ''https://sqs/jobs-deadMessages'', URL := ''https://sqs/jobs''\<rparr> =
          jobs\<lparr>DeadLetterQueueURL := dlurl, URL := url\<rparr>)"
proof -
  have "\<exists>evs. Init up_aws jobs 0 =
       (Return (jobs\<lparr>DeadLetterQueueURL := ''https://sqs/jobs-deadMessages'',
                     URL := ''https://sqs/jobs''\<rparr>, None), evs, 3)"
    by (simp add: Init_def deadLetterQueueSuffix_def GetAttributesByQueueURL_def GetAsAWSString_def
        Marshal_RedrivePolicy_def fixture_simps go_simps numeral_3_eq_3)
  then obtain evs where run: "Init up_aws jobs 0 =
       (Return (jobs\<lparr>DeadLetterQueueURL := ''https://sqs/jobs-deadMessages'',
                     URL := ''https://sqs/jobs''\<rparr>, None), evs, 3)" ..
  from Init_success_redrive_policy [OF run] run show ?thesis
    by blast
qed

text \<open>
  Claim C9. When the creation of the dead-letter queue returns an error, \<open>Init\<close> returns
  that error and leaves every field of the queue as it was, so \<open>URL\<close> and
  \<open>DeadLetterQueueURL\<close> of a fresh queue are still empty; and \<open>New\<close> returns, beside the
  error, a queue that is not nil, with the requested name and both URLs empty.
\<close>

theorem Init_failure_leaves_queue:
  assumes "sqs_CreateQueue (GetClient aws)
             \<lparr>QueueName = Some (name @ ''-deadMessages''),
              Attributes = [''MessageRetentionPeriod'' \<mapsto> Some ''1209600'']\<rparr> w = ((resp, Some e), w1)"
  shows "(\<forall>queue. Name queue = name \<longrightarrow>
            (\<exists>evs. Init aws queue w = (Return (queue, Some e), evs, w1))) \<and>
         (\<exists>evs. New aws name w =
            (Return (Some \<lparr>Name = name, URL = [], DeadLetterQueueURL = []\<rparr>, Some e), evs, w1))"
proof (intro conjI allI impI)
  fix queue :: Queue
  assume "Name queue = name"
  with assms show "\<exists>evs. Init aws queue w = (Return (queue, Some e), evs, w1)"
    by (simp add: Init_fail)
next
  let ?q = "\<lparr>Name = name, URL = [], DeadLetterQueueURL = []\<rparr>"
  from assms have "Init aws ?q w =
      (Return (?q, Some e),
       [EvCreateQueue \<lparr>QueueName = Some (name @ ''-deadMessages''),
                       Attributes = [''MessageRetentionPeriod'' \<mapsto> Some ''1209600'']\<rparr> resp (Some e),
        EvLog ErrorLevel ''Createing the dead letter queue''], w1)"
    using Init_fail [of aws ?q w resp e w1] by simp
  then show "\<exists>evs. New aws name w = (Return (Some ?q, Some e), evs, w1)"
    by (simp add: New_def bind_Return ret_apply)
qed
theorem Init_failure_leaves_queue_witness:
  "sqs_CreateQueue (GetClient down_aws)
     \<lparr>QueueName = Some (''jobs'' @ ''-deadMessages''),
      Attributes = [''MessageRetentionPeriod'' \<mapsto> Some ''1209600'']\<rparr> 0 =
     ((None, Some (Error ''service unavailable'')), 1) \<and>
   (\<exists>evs. Init down_aws \<lparr>Name = ''jobs'', URL = ''u'', DeadLetterQueueURL = ''d''\<rparr> 0 =
      (Return (\<lparr>Name = ''jobs'', URL = ''u'', DeadLetterQueueURL = ''d''\<rparr>,
               Some (Error ''service unavailable'')), evs, 1)) \<and>
   (\<exists>evs. New down_aws ''jobs'' 0 =
      (Return (Some \<lparr>Name = ''jobs'', URL = [], DeadLetterQueueURL = []\<rparr>,
               Some (Error ''service unavailable'')), evs, 1))"
proof -
  have call: "sqs_CreateQueue (GetClient down_aws)
     \<lparr>QueueName = Some (''jobs'' @ ''-deadMessages''),
      Attributes = [''MessageRetentionPeriod'' \<mapsto> Some ''1209600'']\<rparr> 0 =
     ((None, Some (Error ''service unavailable'')), 1)"
    by (simp add: fixture_simps)
  from Init_failure_leaves_queue [OF call] call show ?thesis
    by simp
qed

section \<open>Sending\<close>

text \<open>
  Claim C8. For every payload: when marshalling fails, \<open>SendMessage\<close> returns the error
  and a nil response, writes a log entry and makes no call (the world is unchanged).
  When marshalling succeeds, it makes one call, sending the marshalled text to the URL of
  the queue; when the service returns an error, \<open>SendMessage\<close> returns that error with the
  service's response, and when the service returns a response and no error,
  \<open>SendMessage\<close> returns that response (which carries the message identifier).
\<close>

theorem SendMessage_outcomes:
  "(marshal messageBody = (msg, Some e) \<longrightarrow>
      SendMessage aws marshal queue messageBody w =
        (Return (None, Some e),
         [EvLog ErrorLevel ''Marshal the message body for the queue''], w)) \<and>
   (marshal messageBody = (msg, None) \<and>
    sqs_SendMessage (GetClient aws)
      \<lparr>MessageBody = Some msg, sm_QueueUrl = Some (URL queue)\<rparr> w = ((resp, Some e), w1) \<longrightarrow>
      SendMessage aws marshal queue messageBody w =
        (Return (resp, Some e),
         [EvSendMessage \<lparr>MessageBody = Some msg, sm_QueueUrl = Some (URL queue)\<rparr> resp (Some e),
          EvLog ErrorLevel ''Sending message to queue''], w1)) \<and>
   (marshal messageBody = (msg, None) \<and>
    sqs_SendMessage (GetClient aws)
      \<lparr>MessageBody = Some msg, sm_QueueUrl = Some (URL queue)\<rparr> w = ((Some out, None), w1) \<longrightarrow>
      SendMessage aws marshal queue messageBody w =
        (Return (Some out, None),
         [EvSendMessage \<lparr>MessageBody = Some msg, sm_QueueUrl = Some (URL queue)\<rparr> (Some out) None,
          EvLog InfoLevel ''Message sent to the queue''], w1))"
  by (simp add: SendMessage_def go_simps)
theorem SendMessage_outcomes_witness:
  "SendMessage up_aws text_marshal jobs [] 0 =
     (Return (None, Some (Error ''unsupported value'')),
      [EvLog ErrorLevel ''Marshal the message body for the queue''], 0) \<and>
   SendMessage down_aws text_marshal jobs ''job'' 0 =
     (Return (None, Some (Error ''service unavailable'')),
      [EvSendMessage \<lparr>MessageBody = Some (appendString ''job''), sm_QueueUrl = Some (URL jobs)\<rparr>
         None (Some (Error ''service unavailable'')),
       EvLog ErrorLevel ''Sending message to queue''], 1) \<and>
   SendMessage up_aws text_marshal jobs ''job'' 0 =
     (Return (Some \<lparr>sm_MessageId = Some ''m-1''\<rparr>, None),
      [EvSendMessage \<lparr>MessageBody = Some (appendString ''job''), sm_QueueUrl = Some (URL jobs)\<rparr>
         (Some \<lparr>sm_MessageId = Some ''m-1''\<rparr>) None,
       EvLog InfoLevel ''Message sent to the queue''], 1)"
proof -
  have m1: "text_marshal [] = ([], Some (Error ''unsupported value''))"
    and m2: "text_marshal ''job'' = (appendString ''job'', None)"
    by (simp_all add: text_marshal_def)
  have s1: "sqs_SendMessage (GetClient down_aws)
      \<lparr>MessageBody = Some (appendString ''job''), sm_QueueUrl = Some (URL jobs)\<rparr> 0 =
      ((None, Some (Error ''service unavailable'')), 1)"
    and s2: "sqs_SendMessage (GetClient up_aws)
      \<lparr>MessageBody = Some (appendString ''job''), sm_QueueUrl = Some (URL jobs)\<rparr> 0 =
      ((Some \<lparr>sm_MessageId = Some ''m-1''\<rparr>, None), 1)"
    by (simp_all add: fixture_simps)
  show ?thesis
    using SendMessage_outcomes [where marshal = text_marshal and messageBody = "[]" and msg = "[]"
        and e = "Error ''unsupported value''" and aws = up_aws and queue = jobs and w = 0]
      SendMessage_outcomes [where marshal = text_marshal and messageBody = "''job''"
        and msg = "appendString ''job''" and e = "Error ''service unavailable''"
        and aws = down_aws and queue = jobs and w = 0 and resp = None and ?w1.0 = 1]
      SendMessage_outcomes [where marshal = text_marshal and messageBody = "''job''"
        and msg = "appendString ''job''" and aws = up_aws and queue = jobs and w = 0
        and out = "\<lparr>sm_MessageId = Some ''m-1''\<rparr>" and ?w1.0 = 1]
      m1 m2 s1 s2
    by simp
qed

section \<open>Deleting\<close>

lemma DeleteMessageByReceiptHandle_unfold:
  "DeleteMessageByReceiptHandle aws queue p w =
    (case p of
       None \<Rightarrow> (Panic, [], w)
     | Some h \<Rightarrow>
         (case sqs_DeleteMessage (GetClient aws)
                 \<lparr>dm_QueueUrl = Some (URL queue), dm_ReceiptHandle = Some h\<rparr> w of
            ((resp, err), w1) \<Rightarrow>
              (Return (resp, err),
               [EvDeleteMessage \<lparr>dm_QueueUrl = Some (URL queue), dm_ReceiptHandle = Some h\<rparr>
                  resp err], w1)))"
  by (simp add: DeleteMessageByReceiptHandle_def Let_def bind_deref client_DeleteMessage_def
      split: option.splits)

lemma DeleteMessage_unfold:
  "DeleteMessage aws queue message w =
    (case message of
       None \<Rightarrow> (Panic, [], w)
     | Some m \<Rightarrow>
         (case ReceiptHandle m of
            None \<Rightarrow> (Panic, [], w)
          | Some h \<Rightarrow>
              (case sqs_DeleteMessage (GetClient aws)
                      \<lparr>dm_QueueUrl = Some (URL queue), dm_ReceiptHandle = Some h\<rparr> w of
                 ((resp, err), w1) \<Rightarrow>
                   (Return (resp, err),
                    [EvDeleteMessage
                       \<lparr>dm_QueueUrl = Some (URL queue), dm_ReceiptHandle = Some h\<rparr> resp err,
                     if err \<noteq> None then EvLog ErrorLevel ''Deleting message from queue''
                     else EvLog InfoLevel ''Message deleted from queue''], w1))))"
proof (cases message)
  case None
  then show ?thesis by (simp add: DeleteMessage_def bind_deref)
next
  case (Some m)
  show ?thesis
  proof (cases "ReceiptHandle m")
    case None
    then have "DeleteMessageByReceiptHandle aws queue (ReceiptHandle m) w = (Panic, [], w)"
      by (simp add: DeleteMessageByReceiptHandle_unfold)
    then show ?thesis using Some None
      by (simp add: DeleteMessage_def bind_deref bind_Panic)
  next
    case h: (Some h)
    obtain resp err w1 where call: "sqs_DeleteMessage (GetClient aws)
        \<lparr>dm_QueueUrl = Some (URL queue), dm_ReceiptHandle = Some h\<rparr> w = ((resp, err), w1)"
      by (metis surj_pair)
    then have "DeleteMessageByReceiptHandle aws queue (ReceiptHandle m) w =
        (Return (resp, err),
         [EvDeleteMessage \<lparr>dm_QueueUrl = Some (URL queue), dm_ReceiptHandle = Some h\<rparr> resp err],
         w1)"
      using h by (simp add: DeleteMessageByReceiptHandle_unfold)
    then show ?thesis using Some h call
      by (simp add: DeleteMessage_def bind_deref bind_Return bind_logf ret_apply)
  qed
qed

text \<open>
  Claim C10. Neither function checks for nil. For a message that is not nil and whose
  receipt handle is not nil, \<open>DeleteMessageByReceiptHandle\<close> and \<open>DeleteMessage\<close> make
  exactly one delete call, for the URL of the queue and with the receipt handle of the
  message, do not panic and return what the service returned (\<open>DeleteMessage\<close> adds a log
  entry). Outside this precondition they panic before any call: on a nil handle, on a
  message whose handle is nil, and on a nil message.
\<close>

theorem DeleteMessage_receipt_handle:
  "(ReceiptHandle m = Some h \<and>
    sqs_DeleteMessage (GetClient aws)
      \<lparr>dm_QueueUrl = Some (URL queue), dm_ReceiptHandle = Some h\<rparr> w = ((resp, err), w1) \<longrightarrow>
      DeleteMessageByReceiptHandle aws queue (ReceiptHandle m) w =
        (Return (resp, err),
         [EvDeleteMessage \<lparr>dm_QueueUrl = Some (URL queue), dm_ReceiptHandle = Some h\<rparr> resp err],
         w1) \<and>
      DeleteMessage aws queue (Some m) w =
        (Return (resp, err),
         [EvDeleteMessage \<lparr>dm_QueueUrl = Some (URL queue), dm_ReceiptHandle = Some h\<rparr> resp err,
          if err \<noteq> None then EvLog ErrorLevel ''Deleting message from queue''
          else EvLog InfoLevel ''Message deleted from queue''],
         w1)) \<and>
   DeleteMessageByReceiptHandle aws queue None w = (Panic, [], w) \<and>
   (ReceiptHandle m = None \<longrightarrow> DeleteMessage aws queue (Some m) w = (Panic, [], w)) \<and>
   DeleteMessage aws queue None w = (Panic, [], w)"
  by (simp add: DeleteMessage_unfold DeleteMessageByReceiptHandle_unfold)

theorem DeleteMessage_receipt_handle_witness:
  "DeleteMessage up_aws jobs (Some job_message) 0 =
     (Return (Some DeleteMessageOutput, None),
      [EvDeleteMessage \<lparr>dm_QueueUrl = Some (URL jobs), dm_ReceiptHandle = Some ''rh-1''\<rparr>
         (Some DeleteMessageOutput) None,
       EvLog InfoLevel ''Message deleted from queue''], 1) \<and>
   DeleteMessageByReceiptHandle up_aws jobs (ReceiptHandle job_message) 0 =
     (Return (Some DeleteMessageOutput, None),
      [EvDeleteMessage \<lparr>dm_QueueUrl = Some (URL jobs), dm_ReceiptHandle = Some ''rh-1''\<rparr>
         (Some DeleteMessageOutput) None], 1) \<and>
   DeleteMessage up_aws jobs (Some (job_message\<lparr>ReceiptHandle := None\<rparr>)) 0 = (Panic, [], 0)"
proof -
  have h: "ReceiptHandle job_message = Some ''rh-1''"
    by (simp add: job_message_def)
  have call: "sqs_DeleteMessage (GetClient up_aws)
      \<lparr>dm_QueueUrl = Some (URL jobs), dm_ReceiptHandle = Some ''rh-1''\<rparr> 0 =
      ((Some DeleteMessageOutput, None), 1)"
    by (simp add: fixture_simps)
  show ?thesis
    using DeleteMessage_receipt_handle [where m = job_message and h = "''rh-1''" and aws = up_aws
        and queue = jobs and w = 0 and resp = "Some DeleteMessageOutput" and err = None
        and ?w1.0 = 1]
      DeleteMessage_receipt_handle [where m = "job_message\<lparr>ReceiptHandle := None\<rparr>"
        and aws = up_aws and queue = jobs and w = 0]
      h call
    by simp
qed

section \<open>Receiving and the worker loop\<close>

lemma ReceiveMessage_unfold:
  "ReceiveMessage aws queue w =
    (case sqs_ReceiveMessage (GetClient aws)
            \<lparr>rm_QueueUrl = Some (URL queue), MaxNumberOfMessages = Some 1,
             VisibilityTimeout = Some 600, WaitTimeSeconds = Some 20\<rparr> w of
       ((resp, err), w1) \<Rightarrow>
         let ev = EvReceiveMessage
                    \<lparr>rm_QueueUrl = Some (URL queue), MaxNumberOfMessages = Some 1,
                     VisibilityTimeout = Some 600, WaitTimeSeconds = Some 20\<rparr> resp err
         in if err \<noteq> None then
              (Return (None, err), [ev, EvLog ErrorLevel ''Receiving message from queue''], w1)
            else
              (case resp of
                 None \<Rightarrow> (Panic, [ev], w1)
               | Some r \<Rightarrow>
                   (Return (if length (Messages r) < 1 then None else Messages r ! 0, err),
                    [ev], w1)))"
  by (simp add: ReceiveMessage_def go_simps split: prod.splits option.splits)

lemma UnmarshalMessageBody_unfold:
  "UnmarshalMessageBody decode message v w =
    (case message of
       None \<Rightarrow> (Panic, [], w)
     | Some m \<Rightarrow>
         (case Body m of
            None \<Rightarrow> (Panic, [], w)
          | Some bodyString \<Rightarrow>
              (case decode bodyString v of
                 (v', err) \<Rightarrow>
                   if err \<noteq> None then
                     (case MessageId m of
                        None \<Rightarrow> (Panic, [EvDecode bodyString err], w)
                      | Some i \<Rightarrow>
                          (Return (v', err),
                           [EvDecode bodyString err, EvLog ErrorLevel ''Unmarshal messageBody''],
                           w))
                   else (Return (v', err), [EvDecode bodyString err], w))))"
  by (simp add: UnmarshalMessageBody_def bind_deref bind_emit bind_logf ret_apply
      split: option.splits prod.splits)

lemma Process_iteration_unfold:
  "Process_iteration aws decode processor queue body w =
    (case ReceiveMessage aws queue w of
       (Panic, t, w1) \<Rightarrow> (Panic, EvLog InfoLevel ''Polling queue'' # t, w1)
     | (Return (message, err), t, w1) \<Rightarrow>
         if err \<noteq> None \<or> message = None then
           (Return body, EvLog InfoLevel ''Polling queue'' # t, w1)
         else
           (case UnmarshalMessageBody decode message body w1 of
              (Panic, t2, w2) \<Rightarrow> (Panic, EvLog InfoLevel ''Polling queue'' # t @ t2, w2)
            | (Return (body1, err), t2, w2) \<Rightarrow>
                if err \<noteq> None then
                  (Return body1,
                   EvLog InfoLevel ''Polling queue'' # t @ t2 @
                     [EvLog WarningLevel ''Error unmarshalling message''], w2)
                else
                  (case HandleMessageBody processor of
                     None \<Rightarrow> (Panic, EvLog InfoLevel ''Polling queue'' # t @ t2, w2)
                   | Some handler \<Rightarrow>
                       (case handler queue body1 w2 of
                          ((herr, body2), w3) \<Rightarrow>
                            if herr \<noteq> None then
                              (Return body2,
                               EvLog InfoLevel ''Polling queue'' # t @ t2 @
                                 [EvHandle herr, EvLog WarningLevel ''Error processing message''],
                               w3)
                            else
                              (case DeleteMessage aws queue message w3 of
                                 (Panic, t4, w4) \<Rightarrow>
                                   (Panic,
                                    EvLog InfoLevel ''Polling queue'' # t @ t2 @ [EvHandle herr] @ t4,
                                    w4)
                               | (Return (resp, derr), t4, w4) \<Rightarrow>
                                   (Return body2,
                                    EvLog InfoLevel ''Polling queue'' # t @ t2 @ [EvHandle herr] @ t4 @
                                      (if derr \<noteq> None
                                       then [EvLog WarningLevel ''Error deleting queue message'']
                                       else []),
                                    w4))))))"
  by (simp add: Process_iteration_def bind_def logf_def emit_def call_HandleMessageBody_def
        deref_def ret_def panic_def
      split: prod.splits result.splits option.splits)

text \<open>
  Claim C5. When the service answers a receive with a response that holds no message and
  with no error, \<open>ReceiveMessage\<close> returns a nil message and a nil error, and the run of
  the loop body that made the call consists of the poll's log entry and the receive call
  only: the decoder, the handler and delete are not reached, and the destination value is
  unchanged. When \<open>ReceiveMessage\<close> returns an error, it is the error the service returned
  for the receive call.
\<close>

theorem ReceiveMessage_no_message:
  "(sqs_ReceiveMessage (GetClient aws)
      \<lparr>rm_QueueUrl = Some (URL queue), MaxNumberOfMessages = Some 1,
       VisibilityTimeout = Some 600, WaitTimeSeconds = Some 20\<rparr> w = ((Some out, None), w1) \<and>
    Messages out = [] \<longrightarrow>
      ReceiveMessage aws queue w =
        (Return (None, None),
         [EvReceiveMessage
            \<lparr>rm_QueueUrl = Some (URL queue), MaxNumberOfMessages = Some 1,
             VisibilityTimeout = Some 600, WaitTimeSeconds = Some 20\<rparr> (Some out) None], w1) \<and>
      Process_iteration aws decode processor queue body w =
        (Return body,
         [EvLog InfoLevel ''Polling queue'',
          EvReceiveMessage
            \<lparr>rm_QueueUrl = Some (URL queue), MaxNumberOfMessages = Some 1,
             VisibilityTimeout = Some 600, WaitTimeSeconds = Some 20\<rparr> (Some out) None], w1)) \<and>
   (ReceiveMessage aws queue w = (Return (message, Some e), evs, w') \<longrightarrow>
      (\<exists>resp. sqs_ReceiveMessage (GetClient aws)
         \<lparr>rm_QueueUrl = Some (URL queue), MaxNumberOfMessages = Some 1,
          VisibilityTimeout = Some 600, WaitTimeSeconds = Some 20\<rparr> w = ((resp, Some e), w')))"
  by (auto simp: Process_iteration_def ReceiveMessage_unfold bind_logf bind_Return ret_apply Let_def
      split: prod.splits option.splits if_splits)

theorem ReceiveMessage_no_message_witness:
  "ReceiveMessage up_aws jobs 0 =
     (Return (None, None),
      [EvReceiveMessage
         \<lparr>rm_QueueUrl = Some (URL jobs), MaxNumberOfMessages = Some 1,
          VisibilityTimeout = Some 600, WaitTimeSeconds = Some 20\<rparr>
         (Some \<lparr>Messages = []\<rparr>) None], 1) \<and>
   Process_iteration up_aws strict_decode worker jobs () 0 =
     (Return (),
      [EvLog InfoLevel ''Polling queue'',
       EvReceiveMessage
         \<lparr>rm_QueueUrl = Some (URL jobs), MaxNumberOfMessages = Some 1,
          VisibilityTimeout = Some 600, WaitTimeSeconds = Some 20\<rparr>
         (Some \<lparr>Messages = []\<rparr>) None], 1) \<and>
   ReceiveMessage down_aws jobs 0 =
     (Return (None, Some (Error ''service unavailable'')),
      [EvReceiveMessage
         \<lparr>rm_QueueUrl = Some (URL jobs), MaxNumberOfMessages = Some 1,
          VisibilityTimeout = Some 600, WaitTimeSeconds = Some 20\<rparr>
         None (Some (Error ''service unavailable'')),
       EvLog ErrorLevel ''Receiving message from queue''], 1) \<and>
   (\<exists>resp. sqs_ReceiveMessage (GetClient down_aws)
      \<lparr>rm_QueueUrl = Some (URL jobs), MaxNumberOfMessages = Some 1,
       VisibilityTimeout = Some 600, WaitTimeSeconds = Some 20\<rparr> 0 =
      ((resp, Some (Error ''service unavailable'')), 1))"
proof -
  have up: "sqs_ReceiveMessage (GetClient up_aws)
      \<lparr>rm_QueueUrl = Some (URL jobs), MaxNumberOfMessages = Some 1,
       VisibilityTimeout = Some 600, WaitTimeSeconds = Some 20\<rparr> 0 =
      ((Some \<lparr>Messages = []\<rparr>, None), 1)"
    by (simp add: fixture_simps)
  have down: "ReceiveMessage down_aws jobs 0 =
     (Return (None, Some (Error ''service unavailable'')),
      [EvReceiveMessage
         \<lparr>rm_QueueUrl = Some (URL jobs), MaxNumberOfMessages = Some 1,
          VisibilityTimeout = Some 600, WaitTimeSeconds = Some 20\<rparr>
         None (Some (Error ''service unavailable'')),
       EvLog ErrorLevel ''Receiving message from queue''], 1)"
    by (simp add: ReceiveMessage_unfold fixture_simps)
  show ?thesis
    using ReceiveMessage_no_message [where aws = up_aws and queue = jobs and w = 0
        and out = "\<lparr>Messages = []\<rparr>" and ?w1.0 = 1 and decode = strict_decode
        and processor = worker and body = "()"]
      ReceiveMessage_no_message [where aws = down_aws and queue = jobs and w = 0
        and message = None and e = "Error ''service unavailable''" and w' = 1
        and evs = "[EvReceiveMessage
         \<lparr>rm_QueueUrl = Some (URL jobs), MaxNumberOfMessages = Some 1,
          VisibilityTimeout = Some 600, WaitTimeSeconds = Some 20\<rparr>
         None (Some (Error ''service unavailable'')),
       EvLog ErrorLevel ''Receiving message from queue'']"]
      up down
    by simp
qed

lemmas iteration_unfold =
  Process_iteration_unfold ReceiveMessage_unfold UnmarshalMessageBody_unfold DeleteMessage_unfold

lemmas worker_simps = fixture_simps delivering_aws_def delivering_def worker_def failing_worker_def
  strict_decode_def job_message_def anonymous_message_def undeletable_aws_def undeletable_sqs_def

lemma ReceiveMessage_events:
  assumes "ReceiveMessage aws queue w = (rr, t, w1)"
  shows "handler_results t = []" and "delete_requests t = []"
    and "length (receive_requests t) = 1" and "EvDecode b e \<notin> set t"
  using assms
  by (auto simp: ReceiveMessage_unfold Let_def split: prod.splits option.splits if_splits)

lemma UnmarshalMessageBody_events:
  assumes "UnmarshalMessageBody decode message v w = (ru, t, w1)"
  shows "handler_results t = []" and "delete_requests t = []" and "receive_requests t = []"
    and "w1 = w"
  using assms
  by (auto simp: UnmarshalMessageBody_unfold split: prod.splits option.splits if_splits)

lemma UnmarshalMessageBody_no_error:
  assumes "UnmarshalMessageBody decode message v w = (Return (v', None), t, w1)"
  shows "EvDecode b (Some e) \<notin> set t"
  using assms
  by (auto simp: UnmarshalMessageBody_unfold split: prod.splits option.splits if_splits)

lemma DeleteMessage_events:
  assumes "DeleteMessage aws queue (Some m) w = (rd, t, w1)"
  shows "handler_results t = []" and "receive_requests t = []" and "EvDecode b e \<notin> set t"
    and "delete_requests t =
      (case ReceiptHandle m of
         None \<Rightarrow> []
       | Some h \<Rightarrow> [\<lparr>dm_QueueUrl = Some (URL queue), dm_ReceiptHandle = Some h\<rparr>])"
    and "ReceiptHandle m = None \<Longrightarrow> rd = Panic"
    and "ReceiptHandle m \<noteq> None \<Longrightarrow> rd \<noteq> Panic"
  using assms
  by (auto simp: DeleteMessage_unfold split: prod.splits option.splits if_splits)



lemma Process_iteration_cases [consumes 1, case_names receive_panic idle decode_panic decode_error
    no_handler handler_error delete_panic deleted]:
  assumes run: "Process_iteration aws decode processor queue body w = (r, evs, w')"
  obtains
    t where "ReceiveMessage aws queue w = (Panic, t, w')"
      and "r = Panic" and "evs = EvLog InfoLevel ''Polling queue'' # t"
  | message err t where "ReceiveMessage aws queue w = (Return (message, err), t, w')"
      and "err \<noteq> None \<or> message = None"
      and "r = Return body" and "evs = EvLog InfoLevel ''Polling queue'' # t"
  | m t w1 t2 where "ReceiveMessage aws queue w = (Return (Some m, None), t, w1)"
      and "UnmarshalMessageBody decode (Some m) body w1 = (Panic, t2, w')"
      and "r = Panic" and "evs = EvLog InfoLevel ''Polling queue'' # t @ t2"
  | m t w1 body1 e t2 where "ReceiveMessage aws queue w = (Return (Some m, None), t, w1)"
      and "UnmarshalMessageBody decode (Some m) body w1 = (Return (body1, Some e), t2, w')"
      and "r = Return body1"
      and "evs = EvLog InfoLevel ''Polling queue'' # t @ t2 @
             [EvLog WarningLevel ''Error unmarshalling message'']"
  | m t w1 body1 t2 where "ReceiveMessage aws queue w = (Return (Some m, None), t, w1)"
      and "UnmarshalMessageBody decode (Some m) body w1 = (Return (body1, None), t2, w')"
      and "HandleMessageBody processor = None"
      and "r = Panic" and "evs = EvLog InfoLevel ''Polling queue'' # t @ t2"
  | m t w1 body1 t2 w2 handler e body2 where
        "ReceiveMessage aws queue w = (Return (Some m, None), t, w1)"
      and "UnmarshalMessageBody decode (Some m) body w1 = (Return (body1, None), t2, w2)"
      and "HandleMessageBody processor = Some handler"
      and "handler queue body1 w2 = ((Some e, body2), w')"
      and "r = Return body2"
      and "evs = EvLog InfoLevel ''Polling queue'' # t @ t2 @
             [EvHandle (Some e), EvLog WarningLevel ''Error processing message'']"
  | m t w1 body1 t2 w2 handler body2 w3 t4 where
        "ReceiveMessage aws queue w = (Return (Some m, None), t, w1)"
      and "UnmarshalMessageBody decode (Some m) body w1 = (Return (body1, None), t2, w2)"
      and "HandleMessageBody processor = Some handler"
      and "handler queue body1 w2 = ((None, body2), w3)"
      and "DeleteMessage aws queue (Some m) w3 = (Panic, t4, w')"
      and "r = Panic"
      and "evs = EvLog InfoLevel ''Polling queue'' # t @ t2 @ [EvHandle None] @ t4"
  | m t w1 body1 t2 w2 handler body2 w3 resp derr t4 where
        "ReceiveMessage aws queue w = (Return (Some m, None), t, w1)"
      and "UnmarshalMessageBody decode (Some m) body w1 = (Return (body1, None), t2, w2)"
      and "HandleMessageBody processor = Some handler"
      and "handler queue body1 w2 = ((None, body2), w3)"
      and "DeleteMessage aws queue (Some m) w3 = (Return (resp, derr), t4, w')"
      and "r = Return body2"
      and "evs = EvLog InfoLevel ''Polling queue'' # t @ t2 @ [EvHandle None] @ t4 @
             (if derr \<noteq> None then [EvLog WarningLevel ''Error deleting queue message''] else [])"
proof -
  obtain rr t w1 where recv: "ReceiveMessage aws queue w = (rr, t, w1)"
    by (rule prod_cases3)
  show thesis
  proof (cases rr)
    case Panic
    with run recv that(1) show thesis
      by (simp add: Process_iteration_unfold)
  next
    case (Return x)
    obtain message err where x: "x = (message, err)"
      by (rule prod.exhaust)
    show thesis
    proof (cases "err \<noteq> None \<or> message = None")
      case True
      with run recv Return x that(2) show thesis
        by (simp add: Process_iteration_unfold)
    next
      case False
      then obtain m where m: "message = Some m" and err: "err = None"
        by auto
      note recv' = recv [unfolded Return x m err]
      obtain ru t2 w2 where unm: "UnmarshalMessageBody decode (Some m) body w1 = (ru, t2, w2)"
        by (rule prod_cases3)
      show thesis
      proof (cases ru)
        case Panic
        with run recv' unm that(3) show thesis
          by (simp add: Process_iteration_unfold)
      next
        case (Return y)
        obtain body1 derr where y: "y = (body1, derr)"
          by (rule prod.exhaust)
        note unm' = unm [unfolded Return y]
        show thesis
        proof (cases derr)
          case (Some e)
          with run recv' unm' that(4) show thesis
            by (simp add: Process_iteration_unfold)
        next
          case None
          note unm'' = unm' [unfolded None]
          show thesis
          proof (cases "HandleMessageBody processor")
            case None
            with run recv' unm'' that(5) show thesis
              by (simp add: Process_iteration_unfold)
          next
            case (Some handler)
            obtain herr body2 w3 where h: "handler queue body1 w2 = ((herr, body2), w3)"
              by (metis surj_pair)
            show thesis
            proof (cases herr)
              case (Some e)
              with run recv' unm'' \<open>HandleMessageBody processor = Some handler\<close> h that(6)
              show thesis
                by (simp add: Process_iteration_unfold)
            next
              case None
              note h' = h [unfolded None]
              obtain rd t4 w4 where del: "DeleteMessage aws queue (Some m) w3 = (rd, t4, w4)"
                by (rule prod_cases3)
              show thesis
              proof (cases rd)
                case Panic
                with run recv' unm'' \<open>HandleMessageBody processor = Some handler\<close> h' del that(7)
                show thesis
                  by (simp add: Process_iteration_unfold)
              next
                case (Return z)
                obtain resp derr' where z: "z = (resp, derr')"
                  by (rule prod.exhaust)
                from run recv' unm'' \<open>HandleMessageBody processor = Some handler\<close> h'
                  del [unfolded Return z] that(8) [of m t w1 body1 t2 w2 handler body2 w3 resp derr' t4]
                show thesis
                  by (simp add: Process_iteration_unfold)
              qed
            qed
          qed
        qed
      qed
    qed
  qed
qed

text \<open>
  Claim C2. In every run of the loop body: unless the handler was called and returned nil,
  no delete request is made; in particular none is made after the handler returned an
  error. For the message of the run, when it carries a receipt handle, exactly one delete
  request, for the queue's URL and with this receipt handle, is made if and only if the
  handler was called and returned nil. (When the handler returned nil and the receipt
  handle is nil, \<open>DeleteMessage\<close> is entered and panics on the handle before any request.)
\<close>

theorem Process_iteration_delete_iff_handled:
  assumes "Process_iteration aws decode processor queue body w = (r, evs, w')"
  shows "(handler_results evs \<noteq> [None] \<longrightarrow> delete_requests evs = []) \<and>
         (\<forall>m t w1 h.
            ReceiveMessage aws queue w = (Return (Some m, None), t, w1) \<and>
            ReceiptHandle m = Some h \<longrightarrow>
              (delete_requests evs =
                 [\<lparr>dm_QueueUrl = Some (URL queue), dm_ReceiptHandle = Some h\<rparr>]) =
              (handler_results evs = [None])) \<and>
         (\<forall>m t w1.
            ReceiveMessage aws queue w = (Return (Some m, None), t, w1) \<and>
            ReceiptHandle m = None \<and> handler_results evs = [None] \<longrightarrow>
              r = Panic \<and> delete_requests evs = [])"
  using assms
proof (cases rule: Process_iteration_cases)
  case (receive_panic t)
  then show ?thesis
    by (simp add: ReceiveMessage_events [OF receive_panic(1)])
next
  case (idle message err t)
  then show ?thesis
    by (simp add: ReceiveMessage_events [OF idle(1)])
next
  case (decode_panic m t w1 t2)
  then show ?thesis
    by (simp add: ReceiveMessage_events [OF decode_panic(1)]
        UnmarshalMessageBody_events [OF decode_panic(2)])
next
  case (decode_error m t w1 body1 e t2)
  then show ?thesis
    by (simp add: ReceiveMessage_events [OF decode_error(1)]
        UnmarshalMessageBody_events [OF decode_error(2)])
next
  case (no_handler m t w1 body1 t2)
  then show ?thesis
    by (simp add: ReceiveMessage_events [OF no_handler(1)]
        UnmarshalMessageBody_events [OF no_handler(2)])
next
  case (handler_error m t w1 body1 t2 w2 handler e body2)
  then show ?thesis
    by (simp add: ReceiveMessage_events [OF handler_error(1)]
        UnmarshalMessageBody_events [OF handler_error(2)])
next
  case (delete_panic m t w1 body1 t2 w2 handler body2 w3 t4)
  then show ?thesis
    by (auto simp: ReceiveMessage_events [OF delete_panic(1)]
        UnmarshalMessageBody_events [OF delete_panic(2)] DeleteMessage_events [OF delete_panic(5)])
next
  case (deleted m t w1 body1 t2 w2 handler body2 w3 resp derr t4)
  then show ?thesis
    using DeleteMessage_events(5) [OF deleted(5)]
    by (auto simp: ReceiveMessage_events [OF deleted(1)]
        UnmarshalMessageBody_events [OF deleted(2)] DeleteMessage_events(1-4) [OF deleted(5)])
qed

theorem Process_iteration_delete_iff_handled_witness:
  "Process_iteration up_aws strict_decode worker jobs () 1 =
     (Return (),
      [EvLog InfoLevel ''Polling queue'',
       EvReceiveMessage
         \<lparr>rm_QueueUrl = Some (URL jobs), MaxNumberOfMessages = Some 1,
          VisibilityTimeout = Some 600, WaitTimeSeconds = Some 20\<rparr>
         (Some \<lparr>Messages = [Some job_message]\<rparr>) None,
       EvDecode ''{}'' None,
       EvHandle None,
       EvDeleteMessage \<lparr>dm_QueueUrl = Some (URL jobs), dm_ReceiptHandle = Some ''rh-1''\<rparr>
         (Some DeleteMessageOutput) None,
       EvLog InfoLevel ''Message deleted from queue''], 4) \<and>
   Process_iteration up_aws strict_decode failing_worker jobs () 1 =
     (Return (),
      [EvLog InfoLevel ''Polling queue'',
       EvReceiveMessage
         \<lparr>rm_QueueUrl = Some (URL jobs), MaxNumberOfMessages = Some 1,
          VisibilityTimeout = Some 600, WaitTimeSeconds = Some 20\<rparr>
         (Some \<lparr>Messages = [Some job_message]\<rparr>) None,
       EvDecode ''{}'' None,
       EvHandle (Some (Error ''job failed'')),
       EvLog WarningLevel ''Error processing message''], 3) \<and>
   Process_iteration (delivering_aws (job_message\<lparr>ReceiptHandle := None\<rparr>)) strict_decode worker
       jobs () 1 =
     (Panic,
      [EvLog InfoLevel ''Polling queue'',
       EvReceiveMessage
         \<lparr>rm_QueueUrl = Some (URL jobs), MaxNumberOfMessages = Some 1,
          VisibilityTimeout = Some 600, WaitTimeSeconds = Some 20\<rparr>
         (Some \<lparr>Messages = [Some (job_message\<lparr>ReceiptHandle := None\<rparr>)]\<rparr>) None,
       EvDecode ''{}'' None,
       EvHandle None], 3)"
proof -
  let ?poll = "\<lparr>rm_QueueUrl = Some (URL jobs), MaxNumberOfMessages = Some 1,
          VisibilityTimeout = Some 600, WaitTimeSeconds = Some 20\<rparr>"
  have recv: "ReceiveMessage up_aws jobs 1 =
      (Return (Some job_message, None),
       [EvReceiveMessage ?poll (Some \<lparr>Messages = [Some job_message]\<rparr>) None], 2)"
    by (simp add: ReceiveMessage_unfold worker_simps)
  have recv': "ReceiveMessage (delivering_aws (job_message\<lparr>ReceiptHandle := None\<rparr>)) jobs 1 =
      (Return (Some (job_message\<lparr>ReceiptHandle := None\<rparr>), None),
       [EvReceiveMessage ?poll (Some \<lparr>Messages = [Some (job_message\<lparr>ReceiptHandle := None\<rparr>)]\<rparr>)
          None], 2)"
    by (simp add: ReceiveMessage_unfold worker_simps)
  obtain r1 evs1 w1 where run1:
    "Process_iteration up_aws strict_decode worker jobs () 1 = (r1, evs1, w1)"
    by (rule prod_cases3)
  obtain r2 evs2 w2 where run2:
    "Process_iteration up_aws strict_decode failing_worker jobs () 1 = (r2, evs2, w2)"
    by (rule prod_cases3)
  obtain r3 evs3 w3 where run3:
    "Process_iteration (delivering_aws (job_message\<lparr>ReceiptHandle := None\<rparr>)) strict_decode worker
       jobs () 1 = (r3, evs3, w3)"
    by (rule prod_cases3)
  have h1: "handler_results evs1 = [None]"
    using run1 by (auto simp: iteration_unfold worker_simps numeral_2_eq_2)
  have h2: "handler_results evs2 \<noteq> [None]"
    using run2 by (auto simp: iteration_unfold worker_simps numeral_2_eq_2)
  have h3: "handler_results evs3 = [None]"
    using run3 by (auto simp: iteration_unfold worker_simps numeral_2_eq_2)
  from Process_iteration_delete_iff_handled [OF run1] recv h1
  have d1: "delete_requests evs1 =
      [\<lparr>dm_QueueUrl = Some (URL jobs), dm_ReceiptHandle = Some ''rh-1''\<rparr>]"
    by (simp add: job_message_def)
  from Process_iteration_delete_iff_handled [OF run2] h2
  have d2: "delete_requests evs2 = []"
    by simp
  from Process_iteration_delete_iff_handled [OF run3] recv' h3
  have d3: "r3 = Panic \<and> delete_requests evs3 = []"
    by simp
  from run1 run2 run3 d1 d2 d3 show ?thesis
    by (auto simp: iteration_unfold worker_simps numeral_2_eq_2 numeral_3_eq_3)
qed

lemma UnmarshalMessageBody_error:
  assumes "UnmarshalMessageBody decode (Some m) v w = (ru, t, w1)"
    and "EvDecode b (Some e) \<in> set t"
  shows "Body m = Some b \<and> snd (decode b v) = Some e \<and>
         (MessageId m \<noteq> None \<longrightarrow>
            ru = Return (fst (decode b v), Some e) \<and>
            t = [EvDecode b (Some e), EvLog ErrorLevel ''Unmarshal messageBody''])"
  using assms
  by (auto simp: UnmarshalMessageBody_unfold split: prod.splits option.splits if_splits)

lemma Process_iteration_undecoded_with_id:
  assumes "Process_iteration aws decode processor queue body w = (r, evs, w')"
    and "EvDecode bodyString (Some e) \<in> set evs"
  shows "handler_results evs = [] \<and> delete_requests evs = [] \<and>
         (\<forall>m t w1.
            ReceiveMessage aws queue w = (Return (Some m, None), t, w1) \<and> MessageId m \<noteq> None \<longrightarrow>
              r = Return (fst (decode bodyString body)) \<and>
              evs = EvLog InfoLevel ''Polling queue'' # t @
                [EvDecode bodyString (Some e), EvLog ErrorLevel ''Unmarshal messageBody'',
                 EvLog WarningLevel ''Error unmarshalling message''] \<and>
              w' = w1 \<and>
              (\<forall>n. Process_loop (Suc n) aws decode processor queue body w =
                 (case Process_loop n aws decode processor queue (fst (decode bodyString body)) w' of
                    (r', t', w'') \<Rightarrow> (r', evs @ t', w''))))"
  using assms(1)
proof (cases rule: Process_iteration_cases)
  case (receive_panic t)
  with assms(2) show ?thesis
    by (simp add: ReceiveMessage_events [OF receive_panic(1)])
next
  case (idle message err t)
  with assms(2) show ?thesis
    by (simp add: ReceiveMessage_events [OF idle(1)])
next
  case (decode_panic m t w1 t2)
  with assms(2) have "EvDecode bodyString (Some e) \<in> set t2"
    by (simp add: ReceiveMessage_events [OF decode_panic(1)])
  from UnmarshalMessageBody_error [OF decode_panic(2) this] decode_panic show ?thesis
    by (auto simp: ReceiveMessage_events [OF decode_panic(1)]
        UnmarshalMessageBody_events [OF decode_panic(2)])
next
  case (decode_error m t w1 body1 e' t2)
  with assms(2) have "EvDecode bodyString (Some e) \<in> set t2"
    by (simp add: ReceiveMessage_events [OF decode_error(1)])
  from UnmarshalMessageBody_error [OF decode_error(2) this] decode_error assms(1) show ?thesis
    by (auto simp: ReceiveMessage_events [OF decode_error(1)]
        UnmarshalMessageBody_events [OF decode_error(2)] bind_Return)
next
  case (no_handler m t w1 body1 t2)
  with assms(2) show ?thesis
    by (simp add: ReceiveMessage_events [OF no_handler(1)]
        UnmarshalMessageBody_no_error [OF no_handler(2)])
next
  case (handler_error m t w1 body1 t2 w2 handler e' body2)
  with assms(2) show ?thesis
    by (simp add: ReceiveMessage_events [OF handler_error(1)]
        UnmarshalMessageBody_no_error [OF handler_error(2)])
next
  case (delete_panic m t w1 body1 t2 w2 handler body2 w3 t4)
  with assms(2) show ?thesis
    by (simp add: ReceiveMessage_events [OF delete_panic(1)]
        UnmarshalMessageBody_no_error [OF delete_panic(2)] DeleteMessage_events [OF delete_panic(5)])
next
  case (deleted m t w1 body1 t2 w2 handler body2 w3 resp derr t4)
  with assms(2) show ?thesis
    by (simp add: ReceiveMessage_events [OF deleted(1)]
        UnmarshalMessageBody_no_error [OF deleted(2)] DeleteMessage_events [OF deleted(5)]
        split: if_splits)
qed

lemma UnmarshalMessageBody_error_id:
  assumes "UnmarshalMessageBody decode (Some m) v w = (Return (v', Some e), t, w1)"
  shows "MessageId m \<noteq> None"
  using assms
  by (auto simp: UnmarshalMessageBody_unfold split: prod.splits option.splits if_splits)

lemma Process_iteration_undecoded_no_id:
  assumes run: "Process_iteration aws decode processor queue body w = (r, evs, w')"
    and dec: "EvDecode bodyString (Some e) \<in> set evs"
    and recv: "ReceiveMessage aws queue w = (Return (Some m, None), t, w1)"
    and id: "MessageId m = None"
  shows "r = Panic"
  using run
proof (cases rule: Process_iteration_cases)
  case (receive_panic t)
  then show ?thesis
    by simp
next
  case (idle message err t')
  with dec show ?thesis
    by (simp add: ReceiveMessage_events [OF idle(1)])
next
  case (decode_panic m' t' w1' t2)
  then show ?thesis
    by simp
next
  case (decode_error m' t' w1' body1 e' t2)
  with recv have "m' = m"
    by simp
  with UnmarshalMessageBody_error_id [OF decode_error(2)] id show ?thesis
    by simp
next
  case (no_handler m' t' w1' body1 t2)
  then show ?thesis
    by simp
next
  case (handler_error m' t' w1' body1 t2 w2 handler e' body2)
  with dec show ?thesis
    by (simp add: ReceiveMessage_events [OF handler_error(1)]
        UnmarshalMessageBody_no_error [OF handler_error(2)])
next
  case (delete_panic m' t' w1' body1 t2 w2 handler body2 w3 t4)
  then show ?thesis
    by simp
next
  case (deleted m' t' w1' body1 t2 w2 handler body2 w3 resp derr t4)
  with dec show ?thesis
    by (simp add: ReceiveMessage_events [OF deleted(1)]
        UnmarshalMessageBody_no_error [OF deleted(2)] DeleteMessage_events [OF deleted(5)]
        split: if_splits)
qed

text \<open>
  Claim C4. In every run of the loop body in which decoding the body fails, the handler is
  not called and no delete request is made. The message carrying an identifier, as every
  message the service delivers does, the run ends normally after the two log entries, with
  the destination as the decoder left it and the world as the receive call left it, and the
  loop goes on with its next run from there. (When the identifier is nil, the log entry of
  \<open>UnmarshalMessageBody\<close> dereferences it and the run panics, still without a handler call
  and without a delete request.)
\<close>

theorem Process_iteration_decode_failure:
  assumes "Process_iteration aws decode processor queue body w = (r, evs, w')"
    and "EvDecode bodyString (Some e) \<in> set evs"
  shows "handler_results evs = [] \<and> delete_requests evs = [] \<and>
         (\<forall>m t w1.
            ReceiveMessage aws queue w = (Return (Some m, None), t, w1) \<and> MessageId m \<noteq> None \<longrightarrow>
              r = Return (fst (decode bodyString body)) \<and>
              evs = EvLog InfoLevel ''Polling queue'' # t @
                [EvDecode bodyString (Some e), EvLog ErrorLevel ''Unmarshal messageBody'',
                 EvLog WarningLevel ''Error unmarshalling message''] \<and>
              w' = w1 \<and>
              (\<forall>n. Process_loop (Suc n) aws decode processor queue body w =
                 (case Process_loop n aws decode processor queue (fst (decode bodyString body)) w' of
                    (r', t', w'') \<Rightarrow> (r', evs @ t', w'')))) \<and>
         (\<forall>m t w1.
            ReceiveMessage aws queue w = (Return (Some m, None), t, w1) \<and> MessageId m = None \<longrightarrow>
              r = Panic)"
  using Process_iteration_undecoded_with_id [OF assms]
    Process_iteration_undecoded_no_id [OF assms]
  by blast

theorem Process_iteration_decode_failure_witness:
  "Process_iteration (delivering_aws (job_message\<lparr>Body := Some ''{''\<rparr>)) strict_decode worker
       jobs () 0 =
     (Return (),
      [EvLog InfoLevel ''Polling queue'',
       EvReceiveMessage
         \<lparr>rm_QueueUrl = Some (URL jobs), MaxNumberOfMessages = Some 1,
          VisibilityTimeout = Some 600, WaitTimeSeconds = Some 20\<rparr>
         (Some \<lparr>Messages = [Some (job_message\<lparr>Body := Some ''{''\<rparr>)]\<rparr>) None,
       EvDecode ''{'' (Some (Error ''unexpected end of JSON input'')),
       EvLog ErrorLevel ''Unmarshal messageBody'',
       EvLog WarningLevel ''Error unmarshalling message''], 1) \<and>
   MessageId (job_message\<lparr>Body := Some ''{''\<rparr>) = Some ''m-1'' \<and>
   Process_loop 2 (delivering_aws (job_message\<lparr>Body := Some ''{''\<rparr>)) strict_decode worker
       jobs () 0 =
     (Return (),
      [EvLog InfoLevel ''Polling queue'',
       EvReceiveMessage
         \<lparr>rm_QueueUrl = Some (URL jobs), MaxNumberOfMessages = Some 1,
          VisibilityTimeout = Some 600, WaitTimeSeconds = Some 20\<rparr>
         (Some \<lparr>Messages = [Some (job_message\<lparr>Body := Some ''{''\<rparr>)]\<rparr>) None,
       EvDecode ''{'' (Some (Error ''unexpected end of JSON input'')),
       EvLog ErrorLevel ''Unmarshal messageBody'',
       EvLog WarningLevel ''Error unmarshalling message'',
       EvLog InfoLevel ''Polling queue'',
       EvReceiveMessage
         \<lparr>rm_QueueUrl = Some (URL jobs), MaxNumberOfMessages = Some 1,
          VisibilityTimeout = Some 600, WaitTimeSeconds = Some 20\<rparr>
         (Some \<lparr>Messages = [Some (job_message\<lparr>Body := Some ''{''\<rparr>)]\<rparr>) None,
       EvDecode ''{'' (Some (Error ''unexpected end of JSON input'')),
       EvLog ErrorLevel ''Unmarshal messageBody'',
       EvLog WarningLevel ''Error unmarshalling message''], 2) \<and>
   Process_iteration (delivering_aws anonymous_message) strict_decode worker jobs () 0 =
     (Panic,
      [EvLog InfoLevel ''Polling queue'',
       EvReceiveMessage
         \<lparr>rm_QueueUrl = Some (URL jobs), MaxNumberOfMessages = Some 1,
          VisibilityTimeout = Some 600, WaitTimeSeconds = Some 20\<rparr>
         (Some \<lparr>Messages = [Some anonymous_message]\<rparr>) None,
       EvDecode ''{'' (Some (Error ''unexpected end of JSON input''))], 1) \<and>
   MessageId anonymous_message = None"
proof -
  let ?bad = "job_message\<lparr>Body := Some ''{''\<rparr>"
  let ?aws = "delivering_aws ?bad"
  let ?anon = "delivering_aws anonymous_message"
  let ?poll = "\<lparr>rm_QueueUrl = Some (URL jobs), MaxNumberOfMessages = Some 1,
          VisibilityTimeout = Some 600, WaitTimeSeconds = Some 20\<rparr>"
  let ?e = "Error ''unexpected end of JSON input''"
  have recv: "ReceiveMessage ?aws jobs w =
      (Return (Some ?bad, None), [EvReceiveMessage ?poll (Some \<lparr>Messages = [Some ?bad]\<rparr>) None],
       Suc w)" for w
    by (simp add: ReceiveMessage_unfold worker_simps)
  have id: "MessageId ?bad = Some ''m-1''"
    by (simp add: job_message_def)
  have step: "Process_iteration ?aws strict_decode worker jobs () w =
      (Return (),
       [EvLog InfoLevel ''Polling queue'',
        EvReceiveMessage ?poll (Some \<lparr>Messages = [Some ?bad]\<rparr>) None,
        EvDecode ''{'' (Some ?e),
        EvLog ErrorLevel ''Unmarshal messageBody'',
        EvLog WarningLevel ''Error unmarshalling message''], Suc w) \<and>
     (\<forall>n. Process_loop (Suc n) ?aws strict_decode worker jobs () w =
        (case Process_loop n ?aws strict_decode worker jobs () (Suc w) of
           (r', t', w'') \<Rightarrow>
             (r', [EvLog InfoLevel ''Polling queue'',
                   EvReceiveMessage ?poll (Some \<lparr>Messages = [Some ?bad]\<rparr>) None,
                   EvDecode ''{'' (Some ?e),
                   EvLog ErrorLevel ''Unmarshal messageBody'',
                   EvLog WarningLevel ''Error unmarshalling message''] @ t', w'')))" for w
  proof -
    obtain r evs w' where run: "Process_iteration ?aws strict_decode worker jobs () w = (r, evs, w')"
      by (rule prod_cases3)
    then have dec: "EvDecode ''{'' (Some ?e) \<in> set evs"
      by (auto simp: iteration_unfold worker_simps)
    from id have "MessageId ?bad \<noteq> None"
      by simp
    with Process_iteration_decode_failure [OF run dec] recv [of w] run show ?thesis
      by simp
  qed
  from step [of 0] have one: "Process_iteration ?aws strict_decode worker jobs () 0 =
      (Return (),
       [EvLog InfoLevel ''Polling queue'',
        EvReceiveMessage ?poll (Some \<lparr>Messages = [Some ?bad]\<rparr>) None,
        EvDecode ''{'' (Some ?e),
        EvLog ErrorLevel ''Unmarshal messageBody'',
        EvLog WarningLevel ''Error unmarshalling message''], 1)"
    by simp
  have "Process_loop 0 ?aws strict_decode worker jobs () 2 = (Return (), [], 2)"
    by (simp add: ret_apply)
  with step [of 0] step [of 1] have two: "Process_loop 2 ?aws strict_decode worker jobs () 0 =
      (Return (),
       [EvLog InfoLevel ''Polling queue'',
        EvReceiveMessage ?poll (Some \<lparr>Messages = [Some ?bad]\<rparr>) None,
        EvDecode ''{'' (Some ?e),
        EvLog ErrorLevel ''Unmarshal messageBody'',
        EvLog WarningLevel ''Error unmarshalling message'',
        EvLog InfoLevel ''Polling queue'',
        EvReceiveMessage ?poll (Some \<lparr>Messages = [Some ?bad]\<rparr>) None,
        EvDecode ''{'' (Some ?e),
        EvLog ErrorLevel ''Unmarshal messageBody'',
        EvLog WarningLevel ''Error unmarshalling message''], 2)"
    by (simp add: numeral_2_eq_2)
  obtain r3 evs3 w3 where run3: "Process_iteration ?anon strict_decode worker jobs () 0 = (r3, evs3, w3)"
    by (rule prod_cases3)
  then have evs3: "evs3 =
      [EvLog InfoLevel ''Polling queue'',
       EvReceiveMessage ?poll (Some \<lparr>Messages = [Some anonymous_message]\<rparr>) None,
       EvDecode ''{'' (Some ?e)]" and w3: "w3 = 1"
    by (auto simp: iteration_unfold worker_simps)
  then have dec3: "EvDecode ''{'' (Some ?e) \<in> set evs3"
    by simp
  have recv3: "ReceiveMessage ?anon jobs 0 =
      (Return (Some anonymous_message, None),
       [EvReceiveMessage ?poll (Some \<lparr>Messages = [Some anonymous_message]\<rparr>) None], 1)"
    by (simp add: ReceiveMessage_unfold worker_simps)
  have id3: "MessageId anonymous_message = None"
    by (simp add: anonymous_message_def)
  from Process_iteration_decode_failure [OF run3 dec3] recv3 id3 have "r3 = Panic"
    by blast
  with run3 evs3 w3 have three: "Process_iteration ?anon strict_decode worker jobs () 0 =
     (Panic,
      [EvLog InfoLevel ''Polling queue'',
       EvReceiveMessage ?poll (Some \<lparr>Messages = [Some anonymous_message]\<rparr>) None,
       EvDecode ''{'' (Some ?e)], 1)"
    by simp
  from one id two three id3 show ?thesis
    by blast
qed

lemma ReceiveMessage_Some:
  assumes "ReceiveMessage aws queue w = (Return (Some m, None), t, w1)"
  shows "\<exists>p out. sqs_ReceiveMessage (GetClient aws) p w = ((Some out, None), w1) \<and>
           Messages out \<noteq> [] \<and> Messages out ! 0 = Some m"
  using assms
  by (auto simp: ReceiveMessage_unfold Let_def split: prod.splits option.splits if_splits)

lemma failures_simps [simp]:
  "failures [] = []"
  "failures (ev # evs) = (if failure ev then ev # failures evs else failures evs)"
  "failures (xs @ ys) = failures xs @ failures ys"
  by (simp_all add: failures_def)

lemma ReceiveMessage_failures:
  "ReceiveMessage aws queue w = (Panic, t, w1) \<Longrightarrow> failures t = []"
  "ReceiveMessage aws queue w = (Return (message, None), t, w1) \<Longrightarrow> failures t = []"
  by (auto simp: ReceiveMessage_unfold Let_def split: prod.splits option.splits if_splits)

lemma UnmarshalMessageBody_failures:
  "UnmarshalMessageBody decode (Some m) v w = (Panic, t, w1) \<Longrightarrow> MessageId m \<noteq> None \<Longrightarrow>
     failures t = []"
  "UnmarshalMessageBody decode (Some m) v w = (Return (v', None), t, w1) \<Longrightarrow> failures t = []"
  by (auto simp: UnmarshalMessageBody_unfold split: prod.splits option.splits if_splits)

lemma DeleteMessage_failures:
  "DeleteMessage aws queue (Some m) w = (Panic, t, w1) \<Longrightarrow> failures t = []"
  by (auto simp: DeleteMessage_unfold split: prod.splits option.splits if_splits)

lemma Process_iteration_failure_caught:
  assumes run: "Process_iteration aws decode processor queue body w = (r, evs, w')"
    and failed: "failures evs \<noteq> []"
    and ids: "\<forall>m t w1.
      ReceiveMessage aws queue w = (Return (Some m, None), t, w1) \<longrightarrow> MessageId m \<noteq> None"
  shows "\<exists>b. r = Return b"
  using run
proof (cases rule: Process_iteration_cases)
  case (receive_panic t)
  with failed ReceiveMessage_failures(1) [OF receive_panic(1)] show ?thesis
    by simp
next
  case (idle message err t)
  then show ?thesis
    by simp
next
  case (decode_panic m t w1 t2)
  from ids decode_panic(1) have "MessageId m \<noteq> None"
    by blast
  with failed decode_panic ReceiveMessage_failures(2) [OF decode_panic(1)]
    UnmarshalMessageBody_failures(1) [OF decode_panic(2)]
  show ?thesis
    by simp
next
  case (decode_error m t w1 body1 e t2)
  then show ?thesis
    by simp
next
  case (no_handler m t w1 body1 t2)
  with failed ReceiveMessage_failures(2) [OF no_handler(1)]
    UnmarshalMessageBody_failures(2) [OF no_handler(2)]
  show ?thesis
    by simp
next
  case (handler_error m t w1 body1 t2 w2 handler e body2)
  then show ?thesis
    by simp
next
  case (delete_panic m t w1 body1 t2 w2 handler body2 w3 t4)
  with failed ReceiveMessage_failures(2) [OF delete_panic(1)]
    UnmarshalMessageBody_failures(2) [OF delete_panic(2)]
    DeleteMessage_failures [OF delete_panic(5)]
  show ?thesis
    by simp
next
  case (deleted m t w1 body1 t2 w2 handler body2 w3 resp derr t4)
  then show ?thesis
    by simp
qed

lemma Process_iteration_polls_once:
  assumes "Process_iteration aws decode processor queue body w = (r, evs, w')"
  shows "length (receive_requests evs) = 1"
  using assms
proof (cases rule: Process_iteration_cases)
  case (receive_panic t)
  then show ?thesis
    by (simp add: ReceiveMessage_events [OF receive_panic(1)])
next
  case (idle message err t)
  then show ?thesis
    by (simp add: ReceiveMessage_events [OF idle(1)])
next
  case (decode_panic m t w1 t2)
  then show ?thesis
    by (simp add: ReceiveMessage_events [OF decode_panic(1)]
        UnmarshalMessageBody_events [OF decode_panic(2)])
next
  case (decode_error m t w1 body1 e t2)
  then show ?thesis
    by (simp add: ReceiveMessage_events [OF decode_error(1)]
        UnmarshalMessageBody_events [OF decode_error(2)])
next
  case (no_handler m t w1 body1 t2)
  then show ?thesis
    by (simp add: ReceiveMessage_events [OF no_handler(1)]
        UnmarshalMessageBody_events [OF no_handler(2)])
next
  case (handler_error m t w1 body1 t2 w2 handler e body2)
  then show ?thesis
    by (simp add: ReceiveMessage_events [OF handler_error(1)]
        UnmarshalMessageBody_events [OF handler_error(2)])
next
  case (delete_panic m t w1 body1 t2 w2 handler body2 w3 t4)
  then show ?thesis
    by (simp add: ReceiveMessage_events [OF delete_panic(1)]
        UnmarshalMessageBody_events [OF delete_panic(2)] DeleteMessage_events [OF delete_panic(5)])
next
  case (deleted m t w1 body1 t2 w2 handler body2 w3 resp derr t4)
  then show ?thesis
    by (simp add: ReceiveMessage_events [OF deleted(1)]
        UnmarshalMessageBody_events [OF deleted(2)] DeleteMessage_events [OF deleted(5)])
qed

lemma Process_loop_polls:
  "Process_loop n aws decode processor queue body w = (Return b, evs, w') \<Longrightarrow>
     length (receive_requests evs) = n"
proof (induction n arbitrary: body w evs)
  case 0
  then show ?case
    by (simp add: ret_apply)
next
  case (Suc n)
  obtain r1 t1 w1 where step: "Process_iteration aws decode processor queue body w = (r1, t1, w1)"
    by (rule prod_cases3)
  show ?case
  proof (cases r1)
    case Panic
    with step Suc.prems show ?thesis
      by (simp add: bind_Panic)
  next
    case (Return b1)
    obtain r2 t2 w2 where rest: "Process_loop n aws decode processor queue b1 w1 = (r2, t2, w2)"
      by (rule prod_cases3)
    with step Return Suc.prems have "r2 = Return b" "w2 = w'" and evs: "evs = t1 @ t2"
      by (simp_all add: bind_Return)
    with rest have "Process_loop n aws decode processor queue b1 w1 = (Return b, t2, w')"
      by simp
    then have "length (receive_requests t2) = n"
      by (rule Suc.IH)
    with evs Process_iteration_polls_once [OF step] show ?thesis
      by simp
  qed
qed

lemma Process_loop_Panic:
  assumes ids: "\<forall>p w out w1 m.
      sqs_ReceiveMessage (GetClient aws) p w = ((Some out, None), w1) \<and>
      Messages out \<noteq> [] \<and> Messages out ! 0 = Some m \<longrightarrow> MessageId m \<noteq> None"
  shows "Process_loop n aws decode processor queue body w = (Panic, evs, w') \<Longrightarrow>
     \<exists>pre last b wk. evs = pre @ last \<and>
       Process_iteration aws decode processor queue b wk = (Panic, last, w') \<and>
       failures last = []"
proof (induction n arbitrary: body w evs)
  case 0
  then show ?case
    by (simp add: ret_apply)
next
  case (Suc n)
  obtain r1 t1 w1 where step: "Process_iteration aws decode processor queue body w = (r1, t1, w1)"
    by (rule prod_cases3)
  have ids': "\<forall>m t w1. ReceiveMessage aws queue w = (Return (Some m, None), t, w1) \<longrightarrow>
      MessageId m \<noteq> None"
  proof (intro allI impI)
    fix m t w1
    assume "ReceiveMessage aws queue w = (Return (Some m, None), t, w1)"
    from ReceiveMessage_Some [OF this] obtain p out where
      "sqs_ReceiveMessage (GetClient aws) p w = ((Some out, None), w1) \<and>
       Messages out \<noteq> [] \<and> Messages out ! 0 = Some m"
      by blast
    with ids show "MessageId m \<noteq> None"
      by blast
  qed
  show ?case
  proof (cases r1)
    case Panic
    with step Suc.prems have e: "evs = t1" "w' = w1"
      by (simp_all add: bind_Panic)
    have "failures t1 = []"
    proof (rule ccontr)
      assume "failures t1 \<noteq> []"
      from Process_iteration_failure_caught [OF step this ids'] Panic show False
        by simp
    qed
    with step Panic e have "evs = [] @ t1 \<and>
       Process_iteration aws decode processor queue body w = (Panic, t1, w') \<and> failures t1 = []"
      by simp
    then show ?thesis
      by blast
  next
    case (Return b1)
    obtain r2 t2 w2 where rest: "Process_loop n aws decode processor queue b1 w1 = (r2, t2, w2)"
      by (rule prod_cases3)
    with step Return Suc.prems have "r2 = Panic" "w2 = w'" and evs: "evs = t1 @ t2"
      by (simp_all add: bind_Return)
    with rest have "Process_loop n aws decode processor queue b1 w1 = (Panic, t2, w')"
      by simp
    from Suc.IH [OF this] obtain pre last b wk where "t2 = pre @ last"
      "Process_iteration aws decode processor queue b wk = (Panic, last, w')" "failures last = []"
      by blast
    with evs have "evs = (t1 @ pre) @ last \<and>
       Process_iteration aws decode processor queue b wk = (Panic, last, w') \<and> failures last = []"
      by simp
    then show ?thesis
      by blast
  qed
qed

lemma UnmarshalMessageBody_failure_decode:
  assumes "UnmarshalMessageBody decode (Some m) v w = (ru, t, w1)"
    and "failures t \<noteq> []"
  shows "\<exists>b e. EvDecode b (Some e) \<in> set t"
  using assms
  by (auto simp: UnmarshalMessageBody_unfold split: prod.splits option.splits if_splits)

lemma Process_iteration_failure_no_id:
  assumes run: "Process_iteration aws decode processor queue body w = (r, evs, w')"
    and failed: "failures evs \<noteq> []"
    and recv: "ReceiveMessage aws queue w = (Return (Some m, None), t, w1)"
    and id: "MessageId m = None"
  shows "(r = Panic) = (\<exists>b e. EvDecode b (Some e) \<in> set evs)"
  using run
proof (cases rule: Process_iteration_cases)
  case (receive_panic t')
  with recv show ?thesis
    by simp
next
  case (idle message err t')
  with recv show ?thesis
    by auto
next
  case (decode_panic m' t' w1' t2)
  with failed ReceiveMessage_failures(2) [OF decode_panic(1)] have "failures t2 \<noteq> []"
    by simp
  from UnmarshalMessageBody_failure_decode [OF decode_panic(2) this] decode_panic show ?thesis
    by auto
next
  case (decode_error m' t' w1' body1 e' t2)
  with recv have "m' = m"
    by simp
  with UnmarshalMessageBody_error_id [OF decode_error(2)] id show ?thesis
    by simp
next
  case (no_handler m' t' w1' body1 t2)
  with failed ReceiveMessage_failures(2) [OF no_handler(1)]
    UnmarshalMessageBody_failures(2) [OF no_handler(2)]
  show ?thesis
    by simp
next
  case (handler_error m' t' w1' body1 t2 w2 handler e' body2)
  then show ?thesis
    by (simp add: ReceiveMessage_events [OF handler_error(1)]
        UnmarshalMessageBody_no_error [OF handler_error(2)])
next
  case (delete_panic m' t' w1' body1 t2 w2 handler body2 w3 t4)
  with failed ReceiveMessage_failures(2) [OF delete_panic(1)]
    UnmarshalMessageBody_failures(2) [OF delete_panic(2)]
    DeleteMessage_failures [OF delete_panic(5)]
  show ?thesis
    by simp
next
  case (deleted m' t' w1' body1 t2 w2 handler body2 w3 resp derr t4)
  then show ?thesis
    by (simp add: ReceiveMessage_events [OF deleted(1)]
        UnmarshalMessageBody_no_error [OF deleted(2)] DeleteMessage_events [OF deleted(5)])
qed

lemma Process_unfold:
  assumes "Queue processor = Some queue"
  shows "Process n aws decode processor body w =
     (case Process_loop n aws decode processor queue body w of
        (r, t, w') \<Rightarrow> (r, EvLog InfoLevel ''Processing queue started'' # t, w'))"
  using assms
  by (simp add: Process_def bind_deref bind_logf)

lemma Process_Return:
  assumes "Process n aws decode processor body w = (Return b, evs, w')"
  shows "length (receive_requests evs) = n"
proof (cases "Queue processor")
  case None
  with assms show ?thesis
    by (simp add: Process_def bind_deref)
next
  case (Some queue)
  obtain r t w1 where loop: "Process_loop n aws decode processor queue body w = (r, t, w1)"
    by (rule prod_cases3)
  with assms Process_unfold [OF Some, of n aws decode body w]
  have "r = Return b" and evs: "evs = EvLog InfoLevel ''Processing queue started'' # t"
    by simp_all
  with loop Process_loop_polls [of n aws decode processor queue body w b t w1] show ?thesis
    by simp
qed

lemma Process_Panic:
  assumes ids: "\<forall>p w out w1 m.
      sqs_ReceiveMessage (GetClient aws) p w = ((Some out, None), w1) \<and>
      Messages out \<noteq> [] \<and> Messages out ! 0 = Some m \<longrightarrow> MessageId m \<noteq> None"
    and queue: "Queue processor = Some queue"
    and run: "Process n aws decode processor body w = (Panic, evs, w')"
  shows "\<exists>pre last b wk. evs = pre @ last \<and>
       Process_iteration aws decode processor queue b wk = (Panic, last, w') \<and>
       failures last = []"
proof -
  obtain r t w1 where loop: "Process_loop n aws decode processor queue body w = (r, t, w1)"
    by (rule prod_cases3)
  with run Process_unfold [OF queue, of n aws decode body w]
  have "r = Panic" "w1 = w'" and evs: "evs = EvLog InfoLevel ''Processing queue started'' # t"
    by simp_all
  with loop have "Process_loop n aws decode processor queue body w = (Panic, t, w')"
    by simp
  from Process_loop_Panic [OF ids this] obtain pre last b wk where "t = pre @ last"
    "Process_iteration aws decode processor queue b wk = (Panic, last, w')" "failures last = []"
    by blast
  with evs have "evs = (EvLog InfoLevel ''Processing queue started'' # pre) @ last \<and>
       Process_iteration aws decode processor queue b wk = (Panic, last, w') \<and> failures last = []"
    by simp
  then show ?thesis
    by blast
qed

text \<open>
  Claim C3. Messages carry an identifier, as every message the service delivers does. Then,
  for every behaviour of the service, the decoder and the handler: a run of the loop body in
  which a failure occurs (of the receive call, the decoder, the handler or the delete call)
  ends normally, and the loop goes on with its next run from there; when \<open>Process\<close> panics,
  no failure occurred in the run of the loop body that panicked; and when \<open>Process\<close> has
  completed \<open>k\<close> runs of the loop body, it has polled the queue \<open>k\<close> times. (For a message
  whose identifier is nil, a run with a failure panics exactly when the failure is that of
  the decoder: the log entry of \<open>UnmarshalMessageBody\<close> dereferences the identifier.)
\<close>

theorem Process_failures_caught:
  "(Process_iteration aws decode processor queue body w = (r, evs, w') \<and> failures evs \<noteq> [] \<and>
    (\<forall>m t w1. ReceiveMessage aws queue w = (Return (Some m, None), t, w1) \<longrightarrow>
       MessageId m \<noteq> None) \<longrightarrow>
      (\<exists>b. r = Return b \<and>
         (\<forall>n. Process_loop (Suc n) aws decode processor queue body w =
            (case Process_loop n aws decode processor queue b w' of
               (r', t', w'') \<Rightarrow> (r', evs @ t', w''))))) \<and>
   ((\<forall>p w out w1 m.
       sqs_ReceiveMessage (GetClient aws) p w = ((Some out, None), w1) \<and>
       Messages out \<noteq> [] \<and> Messages out ! 0 = Some m \<longrightarrow> MessageId m \<noteq> None) \<and>
    Queue processor = Some queue \<and>
    Process k aws decode processor body0 w0 = (Panic, evs0, w0') \<longrightarrow>
      (\<exists>pre last b wk. evs0 = pre @ last \<and>
         Process_iteration aws decode processor queue b wk = (Panic, last, w0') \<and>
         failures last = [])) \<and>
   (Process k aws decode processor body0 w0 = (Return b0, evs0, w0') \<longrightarrow>
      length (receive_requests evs0) = k) \<and>
   (Process_iteration aws decode processor queue body w = (r, evs, w') \<and> failures evs \<noteq> [] \<and>
    ReceiveMessage aws queue w = (Return (Some m, None), t, w1) \<and> MessageId m = None \<longrightarrow>
      (r = Panic) = (\<exists>b e. EvDecode b (Some e) \<in> set evs))"
proof (intro conjI impI)
  assume a: "Process_iteration aws decode processor queue body w = (r, evs, w') \<and>
    failures evs \<noteq> [] \<and>
    (\<forall>m t w1. ReceiveMessage aws queue w = (Return (Some m, None), t, w1) \<longrightarrow>
       MessageId m \<noteq> None)"
  then have run: "Process_iteration aws decode processor queue body w = (r, evs, w')"
    and failed: "failures evs \<noteq> []"
    and ids: "\<forall>m t w1. ReceiveMessage aws queue w = (Return (Some m, None), t, w1) \<longrightarrow>
       MessageId m \<noteq> None"
    by simp_all
  from Process_iteration_failure_caught [OF run failed ids] obtain b where b: "r = Return b" ..
  with run have "\<forall>n. Process_loop (Suc n) aws decode processor queue body w =
            (case Process_loop n aws decode processor queue b w' of
               (r', t', w'') \<Rightarrow> (r', evs @ t', w''))"
    by (simp add: bind_Return)
  with b show "\<exists>b. r = Return b \<and>
         (\<forall>n. Process_loop (Suc n) aws decode processor queue body w =
            (case Process_loop n aws decode processor queue b w' of
               (r', t', w'') \<Rightarrow> (r', evs @ t', w'')))"
    by blast
next
  assume "(\<forall>p w out w1 m.
       sqs_ReceiveMessage (GetClient aws) p w = ((Some out, None), w1) \<and>
       Messages out \<noteq> [] \<and> Messages out ! 0 = Some m \<longrightarrow> MessageId m \<noteq> None) \<and>
    Queue processor = Some queue \<and>
    Process k aws decode processor body0 w0 = (Panic, evs0, w0')"
  then have ids: "\<forall>p w out w1 m.
       sqs_ReceiveMessage (GetClient aws) p w = ((Some out, None), w1) \<and>
       Messages out \<noteq> [] \<and> Messages out ! 0 = Some m \<longrightarrow> MessageId m \<noteq> None"
    and queue: "Queue processor = Some queue"
    and run: "Process k aws decode processor body0 w0 = (Panic, evs0, w0')"
    by simp_all
  from Process_Panic [OF ids queue run]
  show "\<exists>pre last b wk. evs0 = pre @ last \<and>
         Process_iteration aws decode processor queue b wk = (Panic, last, w0') \<and>
         failures last = []" .
next
  assume "Process k aws decode processor body0 w0 = (Return b0, evs0, w0')"
  then show "length (receive_requests evs0) = k"
    by (rule Process_Return)
next
  assume "Process_iteration aws decode processor queue body w = (r, evs, w') \<and>
    failures evs \<noteq> [] \<and>
    ReceiveMessage aws queue w = (Return (Some m, None), t, w1) \<and> MessageId m = None"
  then have run: "Process_iteration aws decode processor queue body w = (r, evs, w')"
    and failed: "failures evs \<noteq> []"
    and recv: "ReceiveMessage aws queue w = (Return (Some m, None), t, w1)"
    and id: "MessageId m = None"
    by simp_all
  from Process_iteration_failure_no_id [OF run failed recv id]
  show "(r = Panic) = (\<exists>b e. EvDecode b (Some e) \<in> set evs)" .
qed

theorem Process_failures_caught_witness:
  "Process_iteration down_aws strict_decode worker jobs () 0 =
     (Return (),
      [EvLog InfoLevel ''Polling queue'',
       EvReceiveMessage
         \<lparr>rm_QueueUrl = Some (URL jobs), MaxNumberOfMessages = Some 1,
          VisibilityTimeout = Some 600, WaitTimeSeconds = Some 20\<rparr>
         None (Some (Error ''service unavailable'')),
       EvLog ErrorLevel ''Receiving message from queue''], 1) \<and>
   Process_iteration (delivering_aws (job_message\<lparr>Body := Some ''{''\<rparr>)) strict_decode worker
       jobs () 0 =
     (Return (),
      [EvLog InfoLevel ''Polling queue'',
       EvReceiveMessage
         \<lparr>rm_QueueUrl = Some (URL jobs), MaxNumberOfMessages = Some 1,
          VisibilityTimeout = Some 600, WaitTimeSeconds = Some 20\<rparr>
         (Some \<lparr>Messages = [Some (job_message\<lparr>Body := Some ''{''\<rparr>)]\<rparr>) None,
       EvDecode ''{'' (Some (Error ''unexpected end of JSON input'')),
       EvLog ErrorLevel ''Unmarshal messageBody'',
       EvLog WarningLevel ''Error unmarshalling message''], 1) \<and>
   Process_iteration up_aws strict_decode failing_worker jobs () 1 =
     (Return (),
      [EvLog InfoLevel ''Polling queue'',
       EvReceiveMessage
         \<lparr>rm_QueueUrl = Some (URL jobs), MaxNumberOfMessages = Some 1,
          VisibilityTimeout = Some 600, WaitTimeSeconds = Some 20\<rparr>
         (Some \<lparr>Messages = [Some job_message]\<rparr>) None,
       EvDecode ''{}'' None,
       EvHandle (Some (Error ''job failed'')),
       EvLog WarningLevel ''Error processing message''], 3) \<and>
   Process_iteration undeletable_aws strict_decode worker jobs () 1 =
     (Return (),
      [EvLog InfoLevel ''Polling queue'',
       EvReceiveMessage
         \<lparr>rm_QueueUrl = Some (URL jobs), MaxNumberOfMessages = Some 1,
          VisibilityTimeout = Some 600, WaitTimeSeconds = Some 20\<rparr>
         (Some \<lparr>Messages = [Some job_message]\<rparr>) None,
       EvDecode ''{}'' None,
       EvHandle None,
       EvDeleteMessage \<lparr>dm_QueueUrl = Some (URL jobs), dm_ReceiptHandle = Some ''rh-1''\<rparr>
         None (Some (Error ''service unavailable'')),
       EvLog ErrorLevel ''Deleting message from queue'',
       EvLog WarningLevel ''Error deleting queue message''], 4) \<and>
   (\<exists>pre last b wk.
      Process 2 (delivering_aws (job_message\<lparr>ReceiptHandle := None\<rparr>)) strict_decode worker
        () 0 = (Panic, pre @ last, 2) \<and>
      Process_iteration (delivering_aws (job_message\<lparr>ReceiptHandle := None\<rparr>)) strict_decode
        worker jobs b wk = (Panic, last, 2) \<and>
      failures last = []) \<and>
   (\<exists>evs. Process 2 up_aws strict_decode failing_worker () 0 = (Return (), evs, 3) \<and>
      length (receive_requests evs) = 2) \<and>
   Process_iteration (delivering_aws anonymous_message) strict_decode worker jobs () 0 =
     (Panic,
      [EvLog InfoLevel ''Polling queue'',
       EvReceiveMessage
         \<lparr>rm_QueueUrl = Some (URL jobs), MaxNumberOfMessages = Some 1,
          VisibilityTimeout = Some 600, WaitTimeSeconds = Some 20\<rparr>
         (Some \<lparr>Messages = [Some anonymous_message]\<rparr>) None,
       EvDecode ''{'' (Some (Error ''unexpected end of JSON input''))], 1)"
proof -
  let ?poll = "\<lparr>rm_QueueUrl = Some (URL jobs), MaxNumberOfMessages = Some 1,
          VisibilityTimeout = Some 600, WaitTimeSeconds = Some 20\<rparr>"
  let ?bad = "delivering_aws (job_message\<lparr>Body := Some ''{''\<rparr>)"
  let ?nohandle = "delivering_aws (job_message\<lparr>ReceiptHandle := None\<rparr>)"
  let ?anon = "delivering_aws anonymous_message"
  have a: "Process_iteration down_aws strict_decode worker jobs () 0 =
     (Return (),
      [EvLog InfoLevel ''Polling queue'',
       EvReceiveMessage ?poll None (Some (Error ''service unavailable'')),
       EvLog ErrorLevel ''Receiving message from queue''], 1)"
    by (simp add: iteration_unfold worker_simps)
  have c: "Process_iteration up_aws strict_decode failing_worker jobs () 1 =
     (Return (),
      [EvLog InfoLevel ''Polling queue'',
       EvReceiveMessage ?poll (Some \<lparr>Messages = [Some job_message]\<rparr>) None,
       EvDecode ''{}'' None,
       EvHandle (Some (Error ''job failed'')),
       EvLog WarningLevel ''Error processing message''], 3)"
    by (simp add: iteration_unfold worker_simps numeral_3_eq_3 numeral_2_eq_2)
  have d: "Process_iteration undeletable_aws strict_decode worker jobs () 1 =
     (Return (),
      [EvLog InfoLevel ''Polling queue'',
       EvReceiveMessage ?poll (Some \<lparr>Messages = [Some job_message]\<rparr>) None,
       EvDecode ''{}'' None,
       EvHandle None,
       EvDeleteMessage \<lparr>dm_QueueUrl = Some (URL jobs), dm_ReceiptHandle = Some ''rh-1''\<rparr>
         None (Some (Error ''service unavailable'')),
       EvLog ErrorLevel ''Deleting message from queue'',
       EvLog WarningLevel ''Error deleting queue message''], 4)"
    by (simp add: iteration_unfold worker_simps numeral_3_eq_3 numeral_2_eq_2)
  obtain r evs w' where run: "Process_iteration ?bad strict_decode worker jobs () 0 = (r, evs, w')"
    by (rule prod_cases3)
  then have evs: "evs =
      [EvLog InfoLevel ''Polling queue'',
       EvReceiveMessage ?poll (Some \<lparr>Messages = [Some (job_message\<lparr>Body := Some ''{''\<rparr>)]\<rparr>) None,
       EvDecode ''{'' (Some (Error ''unexpected end of JSON input'')),
       EvLog ErrorLevel ''Unmarshal messageBody'',
       EvLog WarningLevel ''Error unmarshalling message'']" and w': "w' = 1"
    by (auto simp: iteration_unfold worker_simps)
  then have failed: "failures evs \<noteq> []"
    by simp
  have ids: "\<forall>m t w1. ReceiveMessage ?bad jobs 0 = (Return (Some m, None), t, w1) \<longrightarrow>
      MessageId m \<noteq> None"
    by (auto simp: ReceiveMessage_unfold worker_simps)
  from Process_failures_caught [THEN conjunct1, THEN mp, OF conjI, OF run conjI, OF failed ids]
  have "\<exists>b. r = Return b"
    by blast
  with run evs w' have b: "Process_iteration ?bad strict_decode worker jobs () 0 =
     (Return (),
      [EvLog InfoLevel ''Polling queue'',
       EvReceiveMessage ?poll (Some \<lparr>Messages = [Some (job_message\<lparr>Body := Some ''{''\<rparr>)]\<rparr>) None,
       EvDecode ''{'' (Some (Error ''unexpected end of JSON input'')),
       EvLog ErrorLevel ''Unmarshal messageBody'',
       EvLog WarningLevel ''Error unmarshalling message''], 1)"
    by auto
  have ids2: "\<forall>p w out w1 m.
       sqs_ReceiveMessage (GetClient ?nohandle) p w = ((Some out, None), w1) \<and>
       Messages out \<noteq> [] \<and> Messages out ! 0 = Some m \<longrightarrow> MessageId m \<noteq> None"
    by (auto simp: worker_simps)
  have queue: "Queue worker = Some jobs" "Queue failing_worker = Some jobs"
    by (simp_all add: worker_def failing_worker_def)
  have step: "Process_iteration ?nohandle strict_decode worker jobs () 0 =
      (Panic,
       [EvLog InfoLevel ''Polling queue'',
        EvReceiveMessage ?poll (Some \<lparr>Messages = [Some (job_message\<lparr>ReceiptHandle := None\<rparr>)]\<rparr>)
          None,
        EvDecode ''{}'' None,
        EvHandle None], 2)"
    by (simp add: iteration_unfold worker_simps numeral_2_eq_2)
  then have loop: "Process 2 ?nohandle strict_decode worker () 0 =
      (Panic,
       [EvLog InfoLevel ''Processing queue started'',
        EvLog InfoLevel ''Polling queue'',
        EvReceiveMessage ?poll (Some \<lparr>Messages = [Some (job_message\<lparr>ReceiptHandle := None\<rparr>)]\<rparr>)
          None,
        EvDecode ''{}'' None,
        EvHandle None], 2)"
    by (simp add: Process_unfold [OF queue(1)] numeral_2_eq_2 bind_Panic)
  from Process_failures_caught [THEN conjunct2, THEN conjunct1, THEN mp, OF conjI,
      OF ids2 conjI, OF queue(1) loop]
  obtain pre last b wk where
    "[EvLog InfoLevel ''Processing queue started'',
      EvLog InfoLevel ''Polling queue'',
      EvReceiveMessage ?poll (Some \<lparr>Messages = [Some (job_message\<lparr>ReceiptHandle := None\<rparr>)]\<rparr>)
        None,
      EvDecode ''{}'' None,
      EvHandle None] = pre @ last"
    and "Process_iteration ?nohandle strict_decode worker jobs b wk = (Panic, last, 2)"
    and "failures last = []"
    by blast
  with loop have e: "\<exists>pre last b wk.
      Process 2 ?nohandle strict_decode worker () 0 = (Panic, pre @ last, 2) \<and>
      Process_iteration ?nohandle strict_decode worker jobs b wk = (Panic, last, 2) \<and>
      failures last = []"
    by metis
  have first: "Process_iteration up_aws strict_decode failing_worker jobs () 0 =
     (Return (),
      [EvLog InfoLevel ''Polling queue'', EvReceiveMessage ?poll (Some \<lparr>Messages = []\<rparr>) None], 1)"
    by (simp add: iteration_unfold worker_simps)
  from first c have "\<exists>evs. Process 2 up_aws strict_decode failing_worker () 0 =
      (Return (), evs, 3)"
    by (simp add: Process_unfold [OF queue(2)] numeral_2_eq_2 bind_Return ret_apply)
  then obtain evs2 where ok: "Process 2 up_aws strict_decode failing_worker () 0 =
      (Return (), evs2, 3)" ..
  from Process_failures_caught [THEN conjunct2, THEN conjunct2, THEN conjunct1, THEN mp, OF ok]
  have "length (receive_requests evs2) = 2" .
  with ok have f: "\<exists>evs. Process 2 up_aws strict_decode failing_worker () 0 =
      (Return (), evs, 3) \<and> length (receive_requests evs) = 2"
    by blast
  obtain r3 evs3 w3 where run3: "Process_iteration ?anon strict_decode worker jobs () 0 = (r3, evs3, w3)"
    by (rule prod_cases3)
  then have evs3: "evs3 =
      [EvLog InfoLevel ''Polling queue'',
       EvReceiveMessage ?poll (Some \<lparr>Messages = [Some anonymous_message]\<rparr>) None,
       EvDecode ''{'' (Some (Error ''unexpected end of JSON input''))]" and w3: "w3 = 1"
    by (auto simp: iteration_unfold worker_simps)
  then have failed3: "failures evs3 \<noteq> []"
    and dec3: "\<exists>b e. EvDecode b (Some e) \<in> set evs3"
    by simp_all
  have recv3: "ReceiveMessage ?anon jobs 0 =
      (Return (Some anonymous_message, None),
       [EvReceiveMessage ?poll (Some \<lparr>Messages = [Some anonymous_message]\<rparr>) None], 1)"
    by (simp add: ReceiveMessage_unfold worker_simps)
  have id3: "MessageId anonymous_message = None"
    by (simp add: anonymous_message_def)
  from Process_failures_caught [THEN conjunct2, THEN conjunct2, THEN conjunct2, THEN mp, OF conjI,
      OF run3 conjI, OF failed3 conjI, OF recv3 id3] dec3
  have "r3 = Panic"
    by simp
  with run3 evs3 w3 have g: "Process_iteration ?anon strict_decode worker jobs () 0 =
     (Panic,
      [EvLog InfoLevel ''Polling queue'',
       EvReceiveMessage ?poll (Some \<lparr>Messages = [Some anonymous_message]\<rparr>) None,
       EvDecode ''{'' (Some (Error ''unexpected end of JSON input''))], 1)"
    by simp
  from a b c d e f g show ?thesis
    by blast
qed

section \<open>The JSON of the redrive policy\<close>

text \<open>What the decoder reads back from the encoder's escapes and numbers.\<close>

lemma hexval_hex: "n < 16 \<Longrightarrow> hexval (hex n) = Some n"
  by (auto simp: numeral_eq_Suc less_Suc_eq hex_def hexval_def)

lemma mod_shift:
  fixes x k b :: nat
  assumes "x < b"
  shows "(k * b + x) mod b = x"
  using assms by simp

lemma m32: "x < 32 \<Longrightarrow> (192 + x) mod 32 = (x::nat)"
  using mod_shift [of x 32 6] by simp

lemma m64: "y < 64 \<Longrightarrow> (128 + y) mod 64 = (y::nat)"
  using mod_shift [of y 64 2] by simp

lemma m16: "x < 16 \<Longrightarrow> (224 + x) mod 16 = (x::nat)"
  using mod_shift [of x 16 14] by simp

lemma m8: "x < 8 \<Longrightarrow> (240 + x) mod 8 = (x::nat)"
  using mod_shift [of x 8 30] by simp

lemma d2: "y < 64 \<Longrightarrow> (x * 64 + y) div 64 = (x::nat)" "y < 64 \<Longrightarrow> (x * 64 + y) mod 64 = (y::nat)"
  by simp_all

lemma d3:
  fixes x y z :: nat
  assumes "y < 64" "z < 64"
  shows "(x * 4096 + y * 64 + z) div 4096 = x"
    and "((x * 4096 + y * 64 + z) div 64) mod 64 = y"
    and "(x * 4096 + y * 64 + z) mod 64 = z"
proof -
  have e: "x * 4096 + y * 64 + z = (x * 64 + y) * 64 + z"
    by simp
  have q: "(x * 4096 + y * 64 + z) div 64 = x * 64 + y"
    unfolding e using assms(2) by (rule d2(1))
  show "((x * 4096 + y * 64 + z) div 64) mod 64 = y"
    unfolding q using assms(1) by (rule d2(2))
  show "(x * 4096 + y * 64 + z) mod 64 = z"
    unfolding e using assms(2) by (rule d2(2))
  have "(x * 4096 + y * 64 + z) div 4096 = ((x * 4096 + y * 64 + z) div 64) div 64"
    by (simp add: div_mult2_eq [symmetric])
  also have "\<dots> = x"
    unfolding q using assms(1) by (rule d2(1))
  finally show "(x * 4096 + y * 64 + z) div 4096 = x" .
qed

lemma d4:
  fixes x y z u :: nat
  assumes "y < 64" "z < 64" "u < 64"
  shows "(x * 262144 + y * 4096 + z * 64 + u) div 262144 = x"
    and "((x * 262144 + y * 4096 + z * 64 + u) div 4096) mod 64 = y"
    and "((x * 262144 + y * 4096 + z * 64 + u) div 64) mod 64 = z"
    and "(x * 262144 + y * 4096 + z * 64 + u) mod 64 = u"
proof -
  let ?r = "x * 262144 + y * 4096 + z * 64 + u"
  have e: "?r = (x * 4096 + y * 64 + z) * 64 + u"
    by simp
  have q: "?r div 64 = x * 4096 + y * 64 + z"
    unfolding e using assms(3) by (rule d2(1))
  show "?r mod 64 = u"
    unfolding e using assms(3) by (rule d2(2))
  show "(?r div 64) mod 64 = z"
    unfolding q using assms(1,2) by (rule d3(3))
  have "?r div 4096 = (?r div 64) div 64"
    by (simp add: div_mult2_eq [symmetric])
  then show "(?r div 4096) mod 64 = y"
    unfolding q using d3(2) [OF assms(1,2), of x] by simp
  have "?r div 262144 = (?r div 64) div 4096"
    by (simp add: div_mult2_eq [symmetric])
  then show "?r div 262144 = x"
    unfolding q using d3(1) [OF assms(1,2), of x] by simp
qed


lemma EncodeRune_2:
  "0x7F < r \<Longrightarrow> r \<le> 0x7FF \<Longrightarrow>
     EncodeRune r = [char_of (0xC0 + r div 64), char_of (0x80 + r mod 64)]"
  by (simp add: EncodeRune_def)

lemma EncodeRune_3:
  "0x7FF < r \<Longrightarrow> r \<le> 0xFFFF \<Longrightarrow> \<not> (0xD800 \<le> r \<and> r \<le> 0xDFFF) \<Longrightarrow>
     EncodeRune r =
       [char_of (0xE0 + r div 4096), char_of (0x80 + (r div 64) mod 64), char_of (0x80 + r mod 64)]"
  by (auto simp: EncodeRune_def)

lemma EncodeRune_4:
  "0xFFFF < r \<Longrightarrow> r \<le> 0x10FFFF \<Longrightarrow>
     EncodeRune r =
       [char_of (0xF0 + r div 262144), char_of (0x80 + (r div 4096) mod 64),
        char_of (0x80 + (r div 64) mod 64), char_of (0x80 + r mod 64)]"
  by (simp add: EncodeRune_def)

lemma enc2:
  fixes a b :: nat
  assumes "0xC2 \<le> a" "a < 0xE0" "0x80 \<le> b" "b \<le> 0xBF"
  shows "EncodeRune ((a mod 32) * 64 + b mod 64) = [char_of a, char_of b]"
proof -
  define x where "x = a - 0xC0"
  define y where "y = b - 0x80"
  have a: "a = 0xC0 + x" and x: "2 \<le> x" "x < 32"
    using assms(1,2) by (simp_all add: x_def)
  have b: "b = 0x80 + y" and y: "y < 64"
    using assms(3,4) by (simp_all add: y_def)
  have am: "a mod 32 = x" and bm: "b mod 64 = y"
    using x y by (simp_all add: a b m32 m64)
  have r: "0x7F < x * 64 + y" "x * 64 + y \<le> 0x7FF"
    using x y by simp_all
  have "EncodeRune (x * 64 + y) = [char_of (0xC0 + x), char_of (0x80 + y)]"
    unfolding EncodeRune_2 [OF r] d2 [OF y] ..
  then show ?thesis
    unfolding am bm unfolding a b .
qed

lemma enc3:
  fixes a b c :: nat
  assumes "0xE0 \<le> a" "a < 0xF0"
    and "(if a = 0xE0 then 0xA0 else 0x80) \<le> b" "b \<le> (if a = 0xED then 0x9F else 0xBF)"
    and "0x80 \<le> c" "c \<le> 0xBF"
  shows "EncodeRune ((a mod 16) * 4096 + (b mod 64) * 64 + c mod 64) =
           [char_of a, char_of b, char_of c]"
proof -
  define x where "x = a - 0xE0"
  define y where "y = b - 0x80"
  define z where "z = c - 0x80"
  have b80: "0x80 \<le> b"
    using assms(3) by (simp split: if_splits)
  have bBF: "b \<le> 0xBF"
    using assms(4) by (simp split: if_splits)
  have a: "a = 0xE0 + x" and x: "x < 16"
    using assms(1,2) by (simp_all add: x_def)
  have b: "b = 0x80 + y" and y: "y < 64"
    using b80 bBF by (simp_all add: y_def)
  have c: "c = 0x80 + z" and z: "z < 64"
    using assms(5,6) by (simp_all add: z_def)
  have am: "a mod 16 = x" and bm: "b mod 64 = y" and cm: "c mod 64 = z"
    using x y z by (simp_all add: a b c m16 m64)
  have lo: "x = 0 \<longrightarrow> 32 \<le> y" and hi: "x = 13 \<longrightarrow> y < 32"
    using assms(3,4) by (auto simp: a b split: if_splits)
  have r1: "0x7FF < x * 4096 + y * 64 + z"
    using lo y z by (cases "x = 0") simp_all
  have r2: "\<not> (0xD800 \<le> x * 4096 + y * 64 + z \<and> x * 4096 + y * 64 + z \<le> 0xDFFF)"
    using hi x y z by (cases "x = 13") auto
  have r3: "x * 4096 + y * 64 + z \<le> 0xFFFF"
    using x y z by simp
  have "EncodeRune (x * 4096 + y * 64 + z) =
      [char_of (0xE0 + x), char_of (0x80 + y), char_of (0x80 + z)]"
    unfolding EncodeRune_3 [OF r1 r3 r2] d3 [OF y z] ..
  then show ?thesis
    unfolding am bm cm unfolding a b c .
qed

lemma enc4:
  fixes a b c d :: nat
  assumes "0xF0 \<le> a" "a < 0xF5"
    and "(if a = 0xF0 then 0x90 else 0x80) \<le> b" "b \<le> (if a = 0xF4 then 0x8F else 0xBF)"
    and "0x80 \<le> c" "c \<le> 0xBF" and "0x80 \<le> d" "d \<le> 0xBF"
  shows "EncodeRune ((a mod 8) * 262144 + (b mod 64) * 4096 + (c mod 64) * 64 + d mod 64) =
           [char_of a, char_of b, char_of c, char_of d]"
proof -
  define x where "x = a - 0xF0"
  define y where "y = b - 0x80"
  define z where "z = c - 0x80"
  define u where "u = d - 0x80"
  have b80: "0x80 \<le> b"
    using assms(3) by (simp split: if_splits)
  have bBF: "b \<le> 0xBF"
    using assms(4) by (simp split: if_splits)
  have a: "a = 0xF0 + x" and x: "x < 5"
    using assms(1,2) by (simp_all add: x_def)
  have b: "b = 0x80 + y" and y: "y < 64"
    using b80 bBF by (simp_all add: y_def)
  have c: "c = 0x80 + z" and z: "z < 64"
    using assms(5,6) by (simp_all add: z_def)
  have d: "d = 0x80 + u" and u: "u < 64"
    using assms(7,8) by (simp_all add: u_def)
  have am: "a mod 8 = x" and bm: "b mod 64 = y" and cm: "c mod 64 = z" and dm: "d mod 64 = u"
    using x y z u by (simp_all add: a b c d m8 m64)
  have lo: "x = 0 \<longrightarrow> 16 \<le> y" and hi: "x = 4 \<longrightarrow> y < 16"
    using assms(3,4) by (auto simp: a b split: if_splits)
  have r1: "0xFFFF < x * 262144 + y * 4096 + z * 64 + u"
    using lo y z u by (cases "x = 0") simp_all
  have r2: "x * 262144 + y * 4096 + z * 64 + u \<le> 0x10FFFF"
    using hi x y z u by (cases "x = 4") simp_all
  have "EncodeRune (x * 262144 + y * 4096 + z * 64 + u) =
      [char_of (0xF0 + x), char_of (0x80 + y), char_of (0x80 + z), char_of (0x80 + u)]"
    unfolding EncodeRune_4 [OF r1 r2] d4 [OF y z u] ..
  then show ?thesis
    unfolding am bm cm dm unfolding a b c d .
qed


lemma DecodeRuneInString_shape:
  assumes "DecodeRuneInString (c0 # s) = (r, width)"
    and "0x80 \<le> (of_char c0 :: nat)"
    and "\<not> (r = RuneError \<and> width = 1)"
  shows "(width = 2 \<and> 1 \<le> length s \<and>
            0xC2 \<le> (of_char c0 :: nat) \<and> (of_char c0 :: nat) < 0xE0 \<and>
            0x80 \<le> (of_char (s ! 0) :: nat) \<and> (of_char (s ! 0) :: nat) \<le> 0xBF \<and>
            r = (of_char c0 mod 32) * 64 + of_char (s ! 0) mod 64) \<or>
         (width = 3 \<and> 2 \<le> length s \<and>
            0xE0 \<le> (of_char c0 :: nat) \<and> (of_char c0 :: nat) < 0xF0 \<and>
            (if (of_char c0 :: nat) = 0xE0 then 0xA0 else 0x80) \<le> (of_char (s ! 0) :: nat) \<and>
            (of_char (s ! 0) :: nat) \<le> (if (of_char c0 :: nat) = 0xED then 0x9F else 0xBF) \<and>
            0x80 \<le> (of_char (s ! 1) :: nat) \<and> (of_char (s ! 1) :: nat) \<le> 0xBF \<and>
            r = (of_char c0 mod 16) * 4096 + (of_char (s ! 0) mod 64) * 64 + of_char (s ! 1) mod 64) \<or>
         (width = 4 \<and> 3 \<le> length s \<and>
            0xF0 \<le> (of_char c0 :: nat) \<and> (of_char c0 :: nat) < 0xF5 \<and>
            (if (of_char c0 :: nat) = 0xF0 then 0x90 else 0x80) \<le> (of_char (s ! 0) :: nat) \<and>
            (of_char (s ! 0) :: nat) \<le> (if (of_char c0 :: nat) = 0xF4 then 0x8F else 0xBF) \<and>
            0x80 \<le> (of_char (s ! 1) :: nat) \<and> (of_char (s ! 1) :: nat) \<le> 0xBF \<and>
            0x80 \<le> (of_char (s ! 2) :: nat) \<and> (of_char (s ! 2) :: nat) \<le> 0xBF \<and>
            r = (of_char c0 mod 8) * 262144 + (of_char (s ! 0) mod 64) * 4096 +
                (of_char (s ! 1) mod 64) * 64 + of_char (s ! 2) mod 64)"
  using assms
  by (auto simp: Let_def Suc_le_eq split: if_splits)


lemma take_nths:
  "1 \<le> length s \<Longrightarrow> take (Suc 0) s = [s ! 0]"
  "2 \<le> length s \<Longrightarrow> take 2 s = [s ! 0, s ! 1]"
  "3 \<le> length s \<Longrightarrow> take 3 s = [s ! 0, s ! 1, s ! 2]"
  by (cases s; cases "tl s"; cases "tl (tl s)"; simp add: numeral_2_eq_2 numeral_3_eq_3)+

lemma DecodeRuneInString_valid:
  assumes dec: "DecodeRuneInString (c0 # s) = (r, width)"
    and high: "0x80 \<le> (of_char c0 :: nat)"
    and ok: "\<not> (r = RuneError \<and> width = 1)"
  shows "2 \<le> width" and "width - 1 \<le> length s"
    and "EncodeRune r = c0 # take (width - 1) s"
    and "DecodeRuneInString (c0 # take (width - 1) s @ y) = (r, width)"
proof -
  from DecodeRuneInString_shape [OF dec high ok]
  have "2 \<le> width \<and> width - 1 \<le> length s \<and> EncodeRune r = c0 # take (width - 1) s \<and>
        DecodeRuneInString (c0 # take (width - 1) s @ y) = (r, width)"
  proof (elim disjE conjE)
    assume w: "width = 2" and l: "1 \<le> length s"
      and c: "0xC2 \<le> (of_char c0 :: nat)" "(of_char c0 :: nat) < 0xE0"
        "0x80 \<le> (of_char (s ! 0) :: nat)" "(of_char (s ! 0) :: nat) \<le> 0xBF"
      and r: "r = (of_char c0 mod 32) * 64 + of_char (s ! 0) mod 64"
    have t: "take (width - 1) s = [s ! 0]"
      using w l by (simp add: take_nths)
    have e: "EncodeRune r = [c0, s ! 0]"
      unfolding r using enc2 [OF c] by simp
    have d: "DecodeRuneInString (c0 # [s ! 0] @ y) = (r, width)"
      using c w r by (simp add: Let_def)
    from w l t e d show ?thesis
      by simp
  next
    assume w: "width = 3" and l: "2 \<le> length s"
      and c: "0xE0 \<le> (of_char c0 :: nat)" "(of_char c0 :: nat) < 0xF0"
        "(if (of_char c0 :: nat) = 0xE0 then 0xA0 else 0x80) \<le> (of_char (s ! 0) :: nat)"
        "(of_char (s ! 0) :: nat) \<le> (if (of_char c0 :: nat) = 0xED then 0x9F else 0xBF)"
        "0x80 \<le> (of_char (s ! 1) :: nat)" "(of_char (s ! 1) :: nat) \<le> 0xBF"
      and r: "r = (of_char c0 mod 16) * 4096 + (of_char (s ! 0) mod 64) * 64 + of_char (s ! 1) mod 64"
    have t: "take (width - 1) s = [s ! 0, s ! 1]"
      using w l by (simp add: take_nths)
    have e: "EncodeRune r = [c0, s ! 0, s ! 1]"
      unfolding r using enc3 [OF c] by simp
    have d: "DecodeRuneInString (c0 # [s ! 0, s ! 1] @ y) = (r, width)"
      using c w r by (simp add: Let_def split: if_splits)
    from w l t e d show ?thesis
      by simp
  next
    assume w: "width = 4" and l: "3 \<le> length s"
      and c: "0xF0 \<le> (of_char c0 :: nat)" "(of_char c0 :: nat) < 0xF5"
        "(if (of_char c0 :: nat) = 0xF0 then 0x90 else 0x80) \<le> (of_char (s ! 0) :: nat)"
        "(of_char (s ! 0) :: nat) \<le> (if (of_char c0 :: nat) = 0xF4 then 0x8F else 0xBF)"
        "0x80 \<le> (of_char (s ! 1) :: nat)" "(of_char (s ! 1) :: nat) \<le> 0xBF"
        "0x80 \<le> (of_char (s ! 2) :: nat)" "(of_char (s ! 2) :: nat) \<le> 0xBF"
      and r: "r = (of_char c0 mod 8) * 262144 + (of_char (s ! 0) mod 64) * 4096 +
                (of_char (s ! 1) mod 64) * 64 + of_char (s ! 2) mod 64"
    have t: "take (width - 1) s = [s ! 0, s ! 1, s ! 2]"
      using w l by (simp add: take_nths)
    have e: "EncodeRune r = [c0, s ! 0, s ! 1, s ! 2]"
      unfolding r using enc4 [OF c] by simp
    have d: "DecodeRuneInString (c0 # [s ! 0, s ! 1, s ! 2] @ y) = (r, width)"
      using c w r by (simp add: Let_def split: if_splits)
    from w l t e d show ?thesis
      by simp
  qed
  then show "2 \<le> width" and "width - 1 \<le> length s"
    and "EncodeRune r = c0 # take (width - 1) s"
    and "DecodeRuneInString (c0 # take (width - 1) s @ y) = (r, width)"
    by simp_all
qed


lemma prepend_Some [simp]: "prepend b (Some (t, rest)) = Some (b @ t, rest)"
  by (simp add: prepend_def)

lemma hexval_digits [simp]:
  "hexval CHR ''0'' = Some 0" "hexval CHR ''2'' = Some 2" "hexval CHR ''8'' = Some 8"
  "hexval CHR ''9'' = Some 9"
  by (simp_all add: hexval_def)

lemma unquote_escapeByte:
  assumes "(of_char c :: nat) < 0x80" and "\<not> htmlSafe c"
  shows "unquote (escapeByte c @ t) = prepend [c] (unquote t)"
proof -
  let ?n = "of_char c :: nat"
  have hi: "hexval (hex (?n div 16)) = Some (?n div 16)"
    and lo: "hexval (hex (?n mod 16)) = Some (?n mod 16)"
    using assms(1) by (simp_all add: hexval_hex)
  have n: "?n div 16 * 16 + ?n mod 16 = ?n"
    by simp
  have u: "getu4 (CHR 0x5C # CHR ''u'' # CHR ''0'' # CHR ''0'' # hex (?n div 16) # hex (?n mod 16) # t) =
      Some ?n"
    by (simp add: getu4_def hi lo n)
  have e: "EncodeRune ?n = [c]"
    using assms(1) by (simp add: EncodeRune_def)
  show ?thesis
    using assms(1) by (simp add: escapeByte_def u e del: of_char_eq_iff)
qed


lemma getu4_line_separators:
  "getu4 (CHR 0x5C # CHR ''u'' # CHR ''2'' # CHR ''0'' # CHR ''2'' # CHR ''8'' # t) = Some 0x2028"
  "getu4 (CHR 0x5C # CHR ''u'' # CHR ''2'' # CHR ''0'' # CHR ''2'' # CHR ''9'' # t) = Some 0x2029"
  by (simp_all add: getu4_def)

lemma hex_8_9: "hex 8 = CHR ''8''" "hex 9 = CHR ''9''"
  by (simp_all add: hex_def)

lemma unquote_appendStringBody:
  "ValidString s \<Longrightarrow> unquote (appendStringBody s @ CHR 0x22 # rest) = Some (s, rest)"
proof (induction s rule: appendStringBody.induct)
  case 1
  show ?case
    by simp
next
  case (2 c s)
  show ?case
  proof (cases "(of_char c :: nat) < 0x80")
    case True
    with "2.prems" have "ValidString s"
      by simp
    with "2.IH"(1) True have ih: "unquote (appendStringBody s @ CHR 0x22 # rest) = Some (s, rest)"
      by simp
    show ?thesis
    proof (cases "htmlSafe c")
      case safe: True
      with True ih show ?thesis
        by (simp add: htmlSafe_def)
    next
      case False
      with True ih unquote_escapeByte [OF True False] show ?thesis
        by simp
    qed
  next
    case False
    obtain r width where dec: "DecodeRuneInString (c # s) = (r, width)"
      by (rule prod.exhaust)
    from "2.prems" dec have ok: "\<not> (r = RuneError \<and> width = 1)"
      and valid: "ValidString (drop (width - 1) s)"
      by simp_all
    from False have high: "0x80 \<le> (of_char c :: nat)"
      by simp
    note v = DecodeRuneInString_valid [OF dec high ok]
    let ?y = "appendStringBody (drop (width - 1) s) @ CHR 0x22 # rest"
    have ih: "unquote ?y = Some (drop (width - 1) s, rest)"
    proof (cases "r = 0x2028 \<or> r = 0x2029")
      case True
      from "2.IH"(3) [OF False dec [symmetric] ok True valid] show ?thesis .
    next
      case no: False
      from "2.IH"(4) [OF False dec [symmetric] ok no valid] show ?thesis .
    qed
    have whole: "EncodeRune r @ drop (width - 1) s = c # s"
      using v(3) by simp
    show ?thesis
    proof (cases "r = 0x2028 \<or> r = 0x2029")
      case True
      then have "appendStringBody (c # s) @ CHR 0x22 # rest =
          CHR 0x5C # CHR ''u'' # CHR ''2'' # CHR ''0'' # CHR ''2'' # hex (r mod 16) # ?y"
        using False dec ok by simp
      moreover have "unquote
          (CHR 0x5C # CHR ''u'' # CHR ''2'' # CHR ''0'' # CHR ''2'' # hex (r mod 16) # ?y) =
          prepend (EncodeRune r) (unquote ?y)"
        using True by (auto simp: getu4_line_separators hex_8_9)
      ultimately show ?thesis
        using ih whole by simp
    next
      case no: False
      then have "appendStringBody (c # s) @ CHR 0x22 # rest = c # take (width - 1) s @ ?y"
        using False dec ok by simp
      moreover have "unquote (c # take (width - 1) s @ ?y) = prepend (EncodeRune r) (unquote ?y)"
        using False high v(2) v(4) [of ?y] by (auto simp del: DecodeRuneInString.simps)
      ultimately show ?thesis
        using ih whole by simp
    qed
  qed
qed



lemma formatNat_small: "n < 10 \<Longrightarrow> formatNat n = [char_of (48 + n)]"
  by (subst formatNat.simps) simp

lemma formatNat_large:
  "\<not> n < 10 \<Longrightarrow> formatNat n = formatNat (n div 10) @ [char_of (48 + n mod 10)]"
  by (subst formatNat.simps) simp

lemma isDigit_char_of: "n < 10 \<Longrightarrow> isDigit (char_of (48 + n :: nat))"
  by (simp add: isDigit_def)

lemma char_of_digit_nonzero:
  assumes "0 < n" "n < 10"
  shows "char_of (48 + n :: nat) \<noteq> CHR ''0''"
proof
  assume "char_of (48 + n) = CHR ''0''"
  then have "(of_char (char_of (48 + n)) :: nat) = of_char CHR ''0''"
    by (rule arg_cong)
  with assms show False
    by simp
qed

lemma formatNat_digits: "c \<in> set (formatNat n) \<Longrightarrow> isDigit c"
proof (induction n rule: formatNat.induct)
  case (1 n)
  show ?case
  proof (cases "n < 10")
    case True
    with "1.prems" show ?thesis
      by (simp add: formatNat_small isDigit_char_of)
  next
    case False
    have "isDigit (char_of (48 + n mod 10))"
      by (rule isDigit_char_of) simp
    with False "1.prems" "1.IH" show ?thesis
      by (auto simp: formatNat_large)
  qed
qed

lemma formatNat_value: "digitsValue (formatNat n) = n"
proof (induction n rule: formatNat.induct)
  case (1 n)
  show ?case
  proof (cases "n < 10")
    case True
    then show ?thesis
      by (simp add: formatNat_small digitsValue_def)
  next
    case False
    with "1.IH" have "digitsValue (formatNat (n div 10)) = n div 10"
      by simp
    moreover have "(of_char (char_of (48 + n mod 10)) :: nat) = 48 + n mod 10"
      by simp
    ultimately show ?thesis
      using False by (simp add: formatNat_large digitsValue_def del: of_char_of)
  qed
qed

lemma formatNat_nonempty: "formatNat n \<noteq> []"
  by (cases "n < 10") (simp_all add: formatNat_small formatNat_large)

lemma formatNat_leading: "0 < n \<Longrightarrow> hd (formatNat n) \<noteq> CHR ''0''"
proof (induction n rule: formatNat.induct)
  case (1 n)
  show ?case
  proof (cases "n < 10")
    case True
    with "1.prems" show ?thesis
      by (simp add: formatNat_small char_of_digit_nonzero)
  next
    case False
    with "1.IH" have "hd (formatNat (n div 10)) \<noteq> CHR ''0''"
      by simp
    with False formatNat_nonempty [of "n div 10"] show ?thesis
      by (simp add: formatNat_large)
  qed
qed


lemma digits_then_comma:
  "takeWhile isDigit (formatNat n @ CHR '','' # tail) = formatNat n"
  "dropWhile isDigit (formatNat n @ CHR '','' # tail) = CHR '','' # tail"
proof -
  have comma: "\<not> isDigit CHR '',''"
    by (simp add: isDigit_def)
  have all: "\<forall>c \<in> set (formatNat n). isDigit c"
    by (simp add: formatNat_digits)
  show "takeWhile isDigit (formatNat n @ CHR '','' # tail) = formatNat n"
    using comma all by (simp add: takeWhile_tail)
  show "dropWhile isDigit (formatNat n @ CHR '','' # tail) = CHR '','' # tail"
    using comma all by (simp add: dropWhile_append3)
qed

lemma formatNat_no_leading_zero: "\<not> (1 < length (formatNat n) \<and> hd (formatNat n) = CHR ''0'')"
proof (cases "n = 0")
  case True
  then show ?thesis
    by (simp add: formatNat_small)
next
  case False
  then show ?thesis
    using formatNat_leading [of n] by simp
qed

lemma formatNat_not_minus: "hd (formatNat n) \<noteq> CHR ''-''"
proof -
  have "hd (formatNat n) \<in> set (formatNat n)"
    using formatNat_nonempty by simp
  then have "isDigit (hd (formatNat n))"
    by (rule formatNat_digits)
  then show ?thesis
    by (auto simp: isDigit_def)
qed

lemma parseInt64_FormatInt:
  assumes "- (2 ^ 63) \<le> i" and "i < 2 ^ 63"
  shows "parseInt64 (FormatInt i @ CHR '','' # tail) = Some (i, CHR '','' # tail)"
proof (cases "i < 0")
  case True
  then have "FormatInt i @ CHR '','' # tail = CHR ''-'' # formatNat (nat (- i)) @ CHR '','' # tail"
    by (simp add: FormatInt_def)
  then show ?thesis
    using True assms formatNat_nonempty [of "nat (- i)"] formatNat_no_leading_zero [of "nat (- i)"]
    by (simp add: parseInt64_def digits_then_comma formatNat_value Let_def)
next
  case False
  then have "FormatInt i @ CHR '','' # tail = formatNat (nat i) @ CHR '','' # tail"
    by (simp add: FormatInt_def)
  moreover have "hd (formatNat (nat i) @ CHR '','' # tail) \<noteq> CHR ''-''"
    using formatNat_not_minus [of "nat i"] formatNat_nonempty [of "nat i"] by simp
  ultimately show ?thesis
    using False assms formatNat_nonempty [of "nat i"] formatNat_no_leading_zero [of "nat i"]
    by (simp add: parseInt64_def digits_then_comma formatNat_value Let_def)
qed


lemma expect_append: "expect p (p @ s) = Some s"
  by (simp add: expect_def)

lemma appendString_keys:
  "appendString ''maxReceiveCount'' = CHR 0x22 # ''maxReceiveCount'' @ [CHR 0x22]"
  "appendString ''deadLetterTargetArn'' = CHR 0x22 # ''deadLetterTargetArn'' @ [CHR 0x22]"
  by (simp_all add: appendString_def htmlSafe_def)

lemma Marshal_RedrivePolicy_text:
  "fst (Marshal_RedrivePolicy policy) =
     (''{'' @ appendString ''maxReceiveCount'' @ '':'') @
     FormatInt (sint (MaxReceiveCount policy)) @
     CHR '','' #
     (appendString ''deadLetterTargetArn'' @ '':'' @ [CHR 0x22]) @
     appendStringBody (DeadLetterTargetArn policy) @ CHR 0x22 # ''}''"
  by (simp add: Marshal_RedrivePolicy_def appendString_def)

lemma Unmarshal_Marshal:
  assumes "ValidString (DeadLetterTargetArn policy)"
  shows "Unmarshal_RedrivePolicy (fst (Marshal_RedrivePolicy policy)) = Some policy"
proof -
  let ?i = "sint (MaxReceiveCount policy)"
  let ?s3 = "appendStringBody (DeadLetterTargetArn policy) @ CHR 0x22 # ''}''"
  let ?s2 = "CHR '','' # (appendString ''deadLetterTargetArn'' @ '':'' @ [CHR 0x22]) @ ?s3"
  have range: "- (2 ^ 63) \<le> ?i" "?i < 2 ^ 63"
    using sint_ge [of "MaxReceiveCount policy"] sint_lt [of "MaxReceiveCount policy"] by simp_all
  have 1: "expect (''{'' @ appendString ''maxReceiveCount'' @ '':'') (fst (Marshal_RedrivePolicy policy)) =
      Some (FormatInt ?i @ ?s2)"
    unfolding Marshal_RedrivePolicy_text by (rule expect_append)
  have 2: "parseInt64 (FormatInt ?i @ ?s2) = Some (?i, ?s2)"
    using range by (rule parseInt64_FormatInt)
  have 3: "expect ('','' @ appendString ''deadLetterTargetArn'' @ '':'' @ [CHR 0x22]) ?s2 = Some ?s3"
    using expect_append [of "'','' @ appendString ''deadLetterTargetArn'' @ '':'' @ [CHR 0x22]" ?s3]
    by simp
  have 4: "unquote ?s3 = Some (DeadLetterTargetArn policy, ''}'')"
    using assms by (rule unquote_appendStringBody)
  have "Unmarshal_RedrivePolicy (fst (Marshal_RedrivePolicy policy)) =
      Some \<lparr>MaxReceiveCount = of_int ?i, DeadLetterTargetArn = DeadLetterTargetArn policy\<rparr>"
    by (simp only: Unmarshal_RedrivePolicy_def 1 2 3 4 option.case prod.case) simp
  then show ?thesis
    by simp
qed

text \<open>
  Claim C7, as stated, fails: a target that is not valid UTF-8 does not come back. The
  encoder writes the byte \<open>0xFF\<close> as the escape of U+FFFD, and the decoder reads the three
  bytes of U+FFFD.
\<close>

theorem GetAsAWSString_round_trip_counterexample:
  "GetAsAWSString \<lparr>MaxReceiveCount = 5, DeadLetterTargetArn = [CHR 0xFF]\<rparr> (0::nat) =
     (Return
        (Some (''{'' @ appendString ''maxReceiveCount'' @ '':5,'' @
               appendString ''deadLetterTargetArn'' @ '':'' @
               [CHR 0x22, CHR 0x5C] @ ''ufffd'' @ [CHR 0x22] @ ''}''), None), [], 0) \<and>
   Unmarshal_RedrivePolicy
     (''{'' @ appendString ''maxReceiveCount'' @ '':5,'' @
      appendString ''deadLetterTargetArn'' @ '':'' @
      [CHR 0x22, CHR 0x5C] @ ''ufffd'' @ [CHR 0x22] @ ''}'') =
     Some \<lparr>MaxReceiveCount = 5, DeadLetterTargetArn = [CHR 0xEF, CHR 0xBF, CHR 0xBD]\<rparr>"
proof -
  have "char_of (of_char CHR ''5'' :: nat) = CHR ''5''"
    by (rule char_of_char)
  then have five: "char_of (53 :: nat) = CHR ''5''"
    by simp
  have f: "FormatInt 5 = ''5''"
    by (simp add: FormatInt_def formatNat_small five)
  have m: "fst (Marshal_RedrivePolicy \<lparr>MaxReceiveCount = 5, DeadLetterTargetArn = [CHR 0xFF]\<rparr>) =
      ''{'' @ appendString ''maxReceiveCount'' @ '':5,'' @
      appendString ''deadLetterTargetArn'' @ '':'' @
      [CHR 0x22, CHR 0x5C] @ ''ufffd'' @ [CHR 0x22] @ ''}''"
    by (simp add: Marshal_RedrivePolicy_def f appendString_def [of "[CHR 0xFF]"] RuneError_def)
  have p: "parseInt64 (FormatInt (sint (5 :: 64 word)) @ CHR '','' # tail) =
      Some (sint (5 :: 64 word), CHR '','' # tail)" for tail
    by (rule parseInt64_FormatInt) simp_all
  have p': "parseInt64 (CHR ''5'' # CHR '','' # tail) = Some (5, CHR '','' # tail)" for tail
    using p [of tail] f by simp
  have u: "unquote (CHR 0x5C # ''ufffd'' @ [CHR 0x22] @ ''}'') =
      Some ([CHR 0xEF, CHR 0xBF, CHR 0xBD], ''}'')"
    by (simp add: getu4_def hexval_def EncodeRune_def char_of_def bit_Suc_0_iff)
  have e1: "expect (''{'' @ appendString ''maxReceiveCount'' @ '':'')
      (''{'' @ appendString ''maxReceiveCount'' @ '':5,'' @
       appendString ''deadLetterTargetArn'' @ '':'' @
       [CHR 0x22, CHR 0x5C] @ ''ufffd'' @ [CHR 0x22] @ ''}'') =
      Some (CHR ''5'' # CHR '','' # appendString ''deadLetterTargetArn'' @ '':'' @
       [CHR 0x22, CHR 0x5C] @ ''ufffd'' @ [CHR 0x22] @ ''}'')"
    using expect_append [of "''{'' @ appendString ''maxReceiveCount'' @ '':''"
        "CHR ''5'' # CHR '','' # appendString ''deadLetterTargetArn'' @ '':'' @
       [CHR 0x22, CHR 0x5C] @ ''ufffd'' @ [CHR 0x22] @ ''}''"]
    by simp
  have e2: "expect ('','' @ appendString ''deadLetterTargetArn'' @ '':'' @ [CHR 0x22])
      (CHR '','' # appendString ''deadLetterTargetArn'' @ '':'' @
       [CHR 0x22, CHR 0x5C] @ ''ufffd'' @ [CHR 0x22] @ ''}'') =
      Some (CHR 0x5C # ''ufffd'' @ [CHR 0x22] @ ''}'')"
    using expect_append [of "'','' @ appendString ''deadLetterTargetArn'' @ '':'' @ [CHR 0x22]"
        "CHR 0x5C # ''ufffd'' @ [CHR 0x22] @ ''}''"]
    by simp
  have "Unmarshal_RedrivePolicy
     (''{'' @ appendString ''maxReceiveCount'' @ '':5,'' @
      appendString ''deadLetterTargetArn'' @ '':'' @
      [CHR 0x22, CHR 0x5C] @ ''ufffd'' @ [CHR 0x22] @ ''}'') =
     Some \<lparr>MaxReceiveCount = 5, DeadLetterTargetArn = [CHR 0xEF, CHR 0xBF, CHR 0xBD]\<rparr>"
    by (simp only: Unmarshal_RedrivePolicy_def e1 p' e2 u option.case prod.case) simp
  moreover have "GetAsAWSString \<lparr>MaxReceiveCount = 5, DeadLetterTargetArn = [CHR 0xFF]\<rparr> (0::nat) =
     (Return (Some (fst (Marshal_RedrivePolicy
        \<lparr>MaxReceiveCount = 5, DeadLetterTargetArn = [CHR 0xFF]\<rparr>)), None), [], 0)"
    by (simp add: GetAsAWSString_def Marshal_RedrivePolicy_def ret_def)
  ultimately show ?thesis
    unfolding m by simp
qed

text \<open>
  Claim C7, amended. For every policy, \<open>GetAsAWSString\<close> returns a string and no error,
  and the string contains the two field names \<open>maxReceiveCount\<close> and
  \<open>deadLetterTargetArn\<close> literally. When the target is valid UTF-8 (in particular for
  the count \<open>5\<close> and the target \<open>X\<close>), decoding the string gives the policy back.
\<close>

theorem GetAsAWSString_round_trip:
  "\<exists>policyString.
     GetAsAWSString policy w = (Return (Some policyString, None), [], w) \<and>
     (\<exists>a b. policyString = a @ ''maxReceiveCount'' @ b) \<and>
     (\<exists>a b. policyString = a @ ''deadLetterTargetArn'' @ b) \<and>
     (ValidString (DeadLetterTargetArn policy) \<longrightarrow>
        Unmarshal_RedrivePolicy policyString = Some policy)"
proof -
  let ?text = "fst (Marshal_RedrivePolicy policy)"
  have run: "GetAsAWSString policy w = (Return (Some ?text, None), [], w)"
    by (simp add: GetAsAWSString_def Marshal_RedrivePolicy_def ret_def)
  have k1: "?text = ''{'' @ [CHR 0x22] @ ''maxReceiveCount'' @
      ([CHR 0x22] @ '':'' @ FormatInt (sint (MaxReceiveCount policy)) @ '','' @
       appendString ''deadLetterTargetArn'' @ '':'' @
       appendString (DeadLetterTargetArn policy) @ ''}'')"
    by (simp add: Marshal_RedrivePolicy_def appendString_keys)
  have k2: "?text = (''{'' @ appendString ''maxReceiveCount'' @ '':'' @
        FormatInt (sint (MaxReceiveCount policy)) @ '','' @ [CHR 0x22]) @ ''deadLetterTargetArn'' @
      ([CHR 0x22] @ '':'' @ appendString (DeadLetterTargetArn policy) @ ''}'')"
    by (simp add: Marshal_RedrivePolicy_def appendString_keys)
  have c1: "\<exists>a b. ?text = a @ ''maxReceiveCount'' @ b"
    using k1 by (metis append.assoc)
  have c2: "\<exists>a b. ?text = a @ ''deadLetterTargetArn'' @ b"
    using k2 by blast
  from run c1 c2 Unmarshal_Marshal [of policy] show ?thesis
    by blast
qed

theorem GetAsAWSString_round_trip_witness:
  "ValidString ''X'' \<and>
   GetAsAWSString \<lparr>MaxReceiveCount = 5, DeadLetterTargetArn = ''X''\<rparr> (0::nat) =
     (Return
        (Some (''{'' @ [CHR 0x22] @ ''maxReceiveCount'' @ [CHR 0x22] @ '':5,'' @
               [CHR 0x22] @ ''deadLetterTargetArn'' @ [CHR 0x22] @ '':'' @
               [CHR 0x22] @ ''X'' @ [CHR 0x22] @ ''}''), None), [], 0) \<and>
   Unmarshal_RedrivePolicy
     (''{'' @ [CHR 0x22] @ ''maxReceiveCount'' @ [CHR 0x22] @ '':5,'' @
      [CHR 0x22] @ ''deadLetterTargetArn'' @ [CHR 0x22] @ '':'' @
      [CHR 0x22] @ ''X'' @ [CHR 0x22] @ ''}'') =
     Some \<lparr>MaxReceiveCount = 5, DeadLetterTargetArn = ''X''\<rparr>"
proof -
  let ?p = "\<lparr>MaxReceiveCount = 5, DeadLetterTargetArn = ''X''\<rparr>"
  have v: "ValidString (DeadLetterTargetArn ?p)"
    by (simp add: RuneError_def)
  have "char_of (of_char CHR ''5'' :: nat) = CHR ''5''"
    by (rule char_of_char)
  then have five: "char_of (53 :: nat) = CHR ''5''"
    by simp
  have f: "FormatInt 5 = ''5''"
    by (simp add: FormatInt_def formatNat_small five)
  have run: "GetAsAWSString ?p (0::nat) =
     (Return
        (Some (''{'' @ [CHR 0x22] @ ''maxReceiveCount'' @ [CHR 0x22] @ '':5,'' @
               [CHR 0x22] @ ''deadLetterTargetArn'' @ [CHR 0x22] @ '':'' @
               [CHR 0x22] @ ''X'' @ [CHR 0x22] @ ''}''), None), [], 0)"
    by (simp add: GetAsAWSString_def Marshal_RedrivePolicy_def ret_def appendString_def
        htmlSafe_def f)
  from GetAsAWSString_round_trip [of ?p 0] obtain policyString where
    a: "GetAsAWSString ?p (0::nat) = (Return (Some policyString, None), [], 0)"
    and b: "ValidString (DeadLetterTargetArn ?p) \<longrightarrow>
      Unmarshal_RedrivePolicy policyString = Some ?p"
    by blast
  from a run have "policyString =
      ''{'' @ [CHR 0x22] @ ''maxReceiveCount'' @ [CHR 0x22] @ '':5,'' @
      [CHR 0x22] @ ''deadLetterTargetArn'' @ [CHR 0x22] @ '':'' @
      [CHR 0x22] @ ''X'' @ [CHR 0x22] @ ''}''"
    by simp
  with b v have u: "Unmarshal_RedrivePolicy
     (''{'' @ [CHR 0x22] @ ''maxReceiveCount'' @ [CHR 0x22] @ '':5,'' @
      [CHR 0x22] @ ''deadLetterTargetArn'' @ [CHR 0x22] @ '':'' @
      [CHR 0x22] @ ''X'' @ [CHR 0x22] @ ''}'') = Some ?p"
    by blast
  have v0: "ValidString ''X''"
    using v by simp
  from v0 run u show ?thesis
    by blast
qed

end
